theory Spec2Isabelle
  imports Main "HOL-Library.Sublist" "HOL-Library.AList"
begin

section \<open>Values, errors and the remote client\<close>

text \<open>
  The manager of \<^verbatim>\<open>SoftLayer/managers/network.py\<close> only shapes request parameters
  and forwards them to an injected RPC client. The data that travels are decoded
  XML-RPC values: \<^verbatim>\<open>None\<close>, booleans, integers, strings, lists and dictionaries with
  string keys. A dictionary is an association list in insertion order; a lookup takes the
  first entry of a key.
\<close>

datatype pyval =
    PNone
  | PBool bool
  | PInt int
  | PStr string
  | PList "pyval list"
  | PDict "(string \<times> pyval) list"

text \<open>The exceptions of Python that the manager can raise, and a failure of the remote side.\<close>

datatype error =
    KeyError
  | IndexError
  | TypeError
  | AttributeError
  | UnboundLocalError
  | RemoteError string

text \<open>
  One remote operation: \<^verbatim>\<open>client[service].method(*args, **kwargs)\<close>. The client is a
  black box: its answer may depend on every call made before, so it is a function of the
  calls so far and of the call. The state that the manager's methods thread is the list
  of calls made.
\<close>

datatype call = Call string string "pyval list" "(string \<times> pyval) list"

type_synonym remote = "call list \<Rightarrow> call \<Rightarrow> error + pyval"

definition invoke :: "remote \<Rightarrow> call \<Rightarrow> call list \<Rightarrow> call list \<times> (error + pyval)" where
  "invoke rem c tr = (tr @ [c], rem tr c)"

subsection \<open>Python's operations on values\<close>

text \<open>\<^verbatim>\<open>bool(v)\<close>, as \<^verbatim>\<open>if v:\<close> and \<^verbatim>\<open>not v\<close> and \<^verbatim>\<open>v or d\<close> test it.\<close>

fun truthy :: "pyval \<Rightarrow> bool" where
  "truthy PNone = False"
| "truthy (PBool b) = b"
| "truthy (PInt i) = (i \<noteq> 0)"
| "truthy (PStr s) = (s \<noteq> [])"
| "truthy (PList xs) = (xs \<noteq> [])"
| "truthy (PDict kvs) = (kvs \<noteq> [])"

text \<open>\<^verbatim>\<open>d.get(k, default)\<close>: only a dictionary has the method.\<close>

fun py_get :: "pyval \<Rightarrow> string \<Rightarrow> pyval \<Rightarrow> error + pyval" where
  "py_get (PDict kvs) k d = (case map_of kvs k of None \<Rightarrow> Inr d | Some v \<Rightarrow> Inr v)"
| "py_get _ k d = Inl AttributeError"

text \<open>
  \<^verbatim>\<open>v[k]\<close> for a string key \<^verbatim>\<open>k\<close>: a dictionary raises KeyError when the key is
  absent; a list or a string wants an integer index; the other values have no subscript.
\<close>

fun getitem :: "pyval \<Rightarrow> string \<Rightarrow> error + pyval" where
  "getitem (PDict kvs) k = (case map_of kvs k of None \<Rightarrow> Inl KeyError | Some v \<Rightarrow> Inr v)"
| "getitem _ k = Inl TypeError"

text \<open>
  \<^verbatim>\<open>v[0]\<close>: the first element of a list or the first character of a string, IndexError
  when there is none; a dictionary with string keys has no key \<^verbatim>\<open>0\<close>.
\<close>

fun getitem0 :: "pyval \<Rightarrow> error + pyval" where
  "getitem0 (PList []) = Inl IndexError"
| "getitem0 (PList (x # xs)) = Inr x"
| "getitem0 (PStr []) = Inl IndexError"
| "getitem0 (PStr (c # cs)) = Inr (PStr [c])"
| "getitem0 (PDict kvs) = Inl KeyError"
| "getitem0 _ = Inl TypeError"

text \<open>
  \<^verbatim>\<open>s in v\<close> for a string \<^verbatim>\<open>s\<close>: a substring of a string, an element of a list, a key
  of a dictionary; the other values are not containers.
\<close>

fun py_contains :: "string \<Rightarrow> pyval \<Rightarrow> error + bool" where
  "py_contains s (PStr t) = Inr (sublist s t)"
| "py_contains s (PList xs) = Inr (PStr s \<in> set xs)"
| "py_contains s (PDict kvs) = Inr (s \<in> fst ` set kvs)"
| "py_contains s _ = Inl TypeError"

text \<open>
  \<^verbatim>\<open>for x in v\<close>: the elements of a list, the keys of a dictionary, the characters of a
  string; the other values are not iterable.
\<close>

fun py_iter :: "pyval \<Rightarrow> error + pyval list" where
  "py_iter (PList xs) = Inr xs"
| "py_iter (PDict kvs) = Inr (map (\<lambda>kv. PStr (fst kv)) kvs)"
| "py_iter (PStr s) = Inr (map (\<lambda>c. PStr [c]) s)"
| "py_iter _ = Inl TypeError"


text \<open>
  \<^verbatim>\<open>str(n)\<close> of an integer is its decimal numeral, with a minus sign when negative;
  \<^verbatim>\<open>str(None)\<close> is \<^verbatim>\<open>'None'\<close>.
\<close>

definition digit_char :: "nat \<Rightarrow> char" where
  "digit_char d = (''0123456789'' ! (d mod 10))"

fun nat_digits :: "nat \<Rightarrow> string" where
  "nat_digits n = (if n < 10 then [digit_char n] else nat_digits (n div 10) @ [digit_char n])"

declare nat_digits.simps [simp del]

definition str_int :: "int \<Rightarrow> string" where
  "str_int i = (if i < 0 then CHR ''-'' # nat_digits (nat (- i)) else nat_digits (nat i))"

fun py_str :: "int option \<Rightarrow> string" where
  "py_str None = ''None''"
| "py_str (Some i) = str_int i"

section \<open>add_subnet\<close>

text \<open>
  Lines 30 to 44: the category code, the quantity and the description substring that the
  arguments select. \<^verbatim>\<open>desc\<close> is a local variable that only two branches assign;
  \<open>None\<close> stands for the unbound variable.
\<close>

definition add_subnet_params ::
  "string \<Rightarrow> int option \<Rightarrow> int \<Rightarrow> string \<times> int option \<times> string option" where
  "add_subnet_params ty quantity version =
     (if version = 4 then
        (if ty = ''global'' then (''global_ipv4'', Some 0, None)
         else if ty = ''public'' then (''sov_sec_ip_addresses_pub'', quantity, None)
         else (''sov_sec_ip_addresses_priv'', quantity, None))
      else
        (if ty = ''global'' then (''global_ipv6'', Some 0, Some ''Global'')
         else if ty = ''public'' then (''static_ipv6_addresses'', quantity, Some ''Portable'')
         else (''static_ipv6_addresses'', quantity, None)))"

text \<open>
  Lines 49 and 50: the test of the category code and the capacity of one catalog item.
  \<^verbatim>\<open>and\<close> evaluates \<^verbatim>\<open>item['capacity']\<close> only when the category code is the wanted
  one. The quantity is a string here (line 47), so only a string capacity can equal it.
\<close>

definition category_and_capacity :: "string \<Rightarrow> string \<Rightarrow> pyval \<Rightarrow> error + bool" where
  "category_and_capacity category quantity item =
     (case py_get item ''itemCategory'' (PDict []) of
        Inl e \<Rightarrow> Inl e
      | Inr item_category \<Rightarrow>
     (case py_get item_category ''categoryCode'' PNone of
        Inl e \<Rightarrow> Inl e
      | Inr category_code \<Rightarrow>
          if category_code \<noteq> PStr category then Inr False
          else
     (case getitem item ''capacity'' of
        Inl e \<Rightarrow> Inl e
      | Inr capacity \<Rightarrow> Inr (capacity = PStr quantity))))"

text \<open>
  Lines 51 and 52: the test of the version and the description. \<^verbatim>\<open>or\<close> and \<^verbatim>\<open>and\<close>
  evaluate their right operand only when the left one does not decide; reading the
  unbound \<^verbatim>\<open>desc\<close> raises UnboundLocalError before the item's description is read.
\<close>

definition version_and_description :: "int \<Rightarrow> string option \<Rightarrow> pyval \<Rightarrow> error + bool" where
  "version_and_description version desc item =
     (if version = 4 then Inr True
      else if version = 6 then
        (case desc of
           None \<Rightarrow> Inl UnboundLocalError
         | Some d \<Rightarrow>
             (case getitem item ''description'' of
                Inl e \<Rightarrow> Inl e
              | Inr description \<Rightarrow> py_contains d description))
      else Inr False)"

text \<open>Lines 50 to 52: the two nested tests; the inner one runs only when the outer one holds.\<close>

definition item_matches ::
  "string \<Rightarrow> string \<Rightarrow> int \<Rightarrow> string option \<Rightarrow> pyval \<Rightarrow> error + bool" where
  "item_matches category quantity version desc item =
     (case category_and_capacity category quantity item of
        Inl e \<Rightarrow> Inl e
      | Inr False \<Rightarrow> Inr False
      | Inr True \<Rightarrow> version_and_description version desc item)"

text \<open>Line 53: \<^verbatim>\<open>item['prices'][0]['id']\<close>.\<close>

definition item_price :: "pyval \<Rightarrow> error + pyval" where
  "item_price item =
     (case getitem item ''prices'' of
        Inl e \<Rightarrow> Inl e
      | Inr prices \<Rightarrow>
     (case getitem0 prices of
        Inl e \<Rightarrow> Inl e
      | Inr price \<Rightarrow> getitem price ''id''))"

text \<open>
  Lines 48 to 53: the loop over the catalog. It has no \<^verbatim>\<open>break\<close>: every item is
  tested, and each matching item assigns \<^verbatim>\<open>price_id\<close> again.
\<close>

fun price_loop ::
  "string \<Rightarrow> string \<Rightarrow> int \<Rightarrow> string option \<Rightarrow> pyval \<Rightarrow> pyval list \<Rightarrow> error + pyval" where
  "price_loop category quantity version desc price_id [] = Inr price_id"
| "price_loop category quantity version desc price_id (item # items) =
     (case item_matches category quantity version desc item of
        Inl e \<Rightarrow> Inl e
      | Inr False \<Rightarrow> price_loop category quantity version desc price_id items
      | Inr True \<Rightarrow>
          (case item_price item of
             Inl e \<Rightarrow> Inl e
           | Inr p \<Rightarrow> price_loop category quantity version desc p items))"

text \<open>The catalog query of line 48 and the order calls of lines 67 to 76.\<close>

definition getItems_call :: call where
  "getItems_call =
     Call ''Product_Package'' ''getItems'' []
       [(''id'', PInt 0), (''mask'', PStr ''mask[itemCategory]'')]"

definition order_call :: "string \<Rightarrow> (string \<times> pyval) list \<Rightarrow> call" where
  "order_call func order = Call ''Product_Order'' func [PDict order] []"

text \<open>
  Lines 29 to 53: the parameters, the catalog query and the loop; the value is the
  \<^verbatim>\<open>price_id\<close> that line 55 reads.
\<close>

definition find_price_id ::
  "remote \<Rightarrow> call list \<Rightarrow> string \<Rightarrow> int option \<Rightarrow> int \<Rightarrow> call list \<times> (error + pyval)" where
  "find_price_id rem tr0 ty quantity0 version =
     (case add_subnet_params ty quantity0 version of (category, quantity1, desc) \<Rightarrow>
      let quantity = py_str quantity1 in
      (case invoke rem getItems_call tr0 of
         (tr, Inl e) \<Rightarrow> (tr, Inl e)
       | (tr, Inr response) \<Rightarrow>
      (case py_iter response of
         Inl e \<Rightarrow> (tr, Inl e)
       | Inr items \<Rightarrow> (tr, price_loop category quantity version desc PNone items))))"

text \<open>
  Lines 27 to 76. The order dictionary is built before the test of \<^verbatim>\<open>price_id\<close>, as
  in the source; \<^verbatim>\<open>complexType\<close> is added last.
\<close>

definition add_subnet ::
  "remote \<Rightarrow> call list \<Rightarrow> string \<Rightarrow> int option \<Rightarrow> pyval \<Rightarrow> int \<Rightarrow> bool
     \<Rightarrow> call list \<times> (error + pyval)" where
  "add_subnet rem tr0 ty quantity vlan_id version test_order =
     (case find_price_id rem tr0 ty quantity version of
        (tr, Inl e) \<Rightarrow> (tr, Inl e)
      | (tr, Inr price_id) \<Rightarrow>
          let order0 = [(''packageId'', PInt 0),
                        (''prices'', PList [PDict [(''id'', price_id)]]),
                        (''quantity'', PInt 1)];
              order1 = (if ty \<noteq> ''global'' then order0 @ [(''endPointVlanId'', vlan_id)]
                        else order0)
          in
          if \<not> truthy price_id then (tr, Inr PNone)
          else
            let func = (if test_order then ''verifyOrder'' else ''placeOrder'');
                order = order1 @
                  [(''complexType'', PStr ''SoftLayer_Container_Product_Order_Network_Subnet'')]
            in invoke rem (order_call func order) tr)"

text \<open>Fixtures: a well-formed catalog item, and a client that answers the catalog query.\<close>

definition mk_item :: "string \<Rightarrow> string \<Rightarrow> string \<Rightarrow> int \<Rightarrow> pyval" where
  "mk_item category capacity description price_id =
     PDict [(''itemCategory'', PDict [(''categoryCode'', PStr category)]),
            (''capacity'', PStr capacity),
            (''description'', PStr description),
            (''prices'', PList [PDict [(''id'', PInt price_id)]])]"

definition catalog_remote :: "pyval list \<Rightarrow> remote" where
  "catalog_remote items tr c =
     (if c = getItems_call then Inr (PList items) else Inr (PStr ''receipt''))"

section \<open>Object masks\<close>

text \<open>\<^verbatim>\<open>','.join(xs)\<close> and \<^verbatim>\<open>'mask[%s]' % s\<close>.\<close>

fun join_comma :: "string list \<Rightarrow> string" where
  "join_comma [] = []"
| "join_comma [x] = x"
| "join_comma (x # y # ys) = x @ '','' @ join_comma (y # ys)"

definition mask_of :: "string \<Rightarrow> string" where
  "mask_of s = ''mask['' @ s @ '']''"

text \<open>Lines 243 to 274: the two standard masks.\<close>

definition get_subnet_mask :: "string list" where
  "get_subnet_mask = [''hardware'', ''datacenter'', ''ipAddressCount'', ''virtualGuests'']"

definition get_vlan_mask :: string where
  "get_vlan_mask =
     mask_of (join_comma
       [''firewallInterfaces'', ''hardware'', ''networkComponents'',
        ''primaryRouter[id, fullyQualifiedDomainName, datacenter]'',
        ''subnets'', ''totalPrimaryIpAddressCount'', ''virtualGuests''])"

text \<open>
  Keyword arguments are a dictionary; \<^verbatim>\<open>if 'mask' not in kwargs: kwargs['mask'] = ...\<close>
  of lines 121 and 165.
\<close>

definition default_mask :: "(string \<times> pyval) list \<Rightarrow> (string \<times> pyval) list" where
  "default_mask kwargs =
     (if map_of kwargs ''mask'' = None
      then AList.update ''mask'' (PStr (mask_of (join_comma get_subnet_mask))) kwargs
      else kwargs)"

section \<open>Filters\<close>

text \<open>
  Modelled from the spec: the class \<^verbatim>\<open>NestedDict\<close> of \<^verbatim>\<open>SoftLayer.utils\<close> is not among
  the sources. The spec describes the filter as a nested mapping that mirrors the remote
  field hierarchy, with unique keys at each level, built by assigning at a path and merged
  with the filter of the caller. \<open>nd_set\<close> is the assignment
  \<^verbatim>\<open>_filter[k1]...[kn] = v\<close>: a level that is absent is created, a level that is a
  dictionary is entered, and a level that holds another value cannot be subscripted.
  \<^verbatim>\<open>to_dict()\<close> is the identity on this representation.
\<close>

fun nd_set :: "string list \<Rightarrow> pyval \<Rightarrow> (string \<times> pyval) list \<Rightarrow> error + (string \<times> pyval) list" where
  "nd_set [] v d = Inr d"
| "nd_set [k] v d = Inr (AList.update k v d)"
| "nd_set (k # k' # ks) v d =
     (case map_of d k of
        None \<Rightarrow>
          (case nd_set (k' # ks) v [] of
             Inl e \<Rightarrow> Inl e
           | Inr sub \<Rightarrow> Inr (AList.update k (PDict sub) d))
      | Some (PDict sub0) \<Rightarrow>
          (case nd_set (k' # ks) v sub0 of
             Inl e \<Rightarrow> Inl e
           | Inr sub \<Rightarrow> Inr (AList.update k (PDict sub) d))
      | Some _ \<Rightarrow> Inl TypeError)"

text \<open>Reading a nested dictionary at a path; the empty path reads the whole value.\<close>

fun nd_get :: "string list \<Rightarrow> pyval \<Rightarrow> pyval option" where
  "nd_get [] v = Some v"
| "nd_get (k # ks) (PDict d) = (case map_of d k of None \<Rightarrow> None | Some v \<Rightarrow> nd_get ks v)"
| "nd_get (k # ks) _ = None"

text \<open>Two paths are apart when neither is a prefix of the other.\<close>

definition apart :: "string list \<Rightarrow> string list \<Rightarrow> bool" where
  "apart p q = (\<not> prefix p q \<and> \<not> prefix q p)"

text \<open>
  \<^verbatim>\<open>NestedDict(kwargs.get('filter') or {})\<close> of lines 140 and 169: an absent or falsy
  filter is the empty dictionary. The filter is a nested mapping; the model takes a truthy
  value that is not a dictionary to be rejected by the constructor.
\<close>

definition caller_filter :: "(string \<times> pyval) list \<Rightarrow> error + (string \<times> pyval) list" where
  "caller_filter kwargs =
     (case map_of kwargs ''filter'' of
        None \<Rightarrow> Inr []
      | Some v \<Rightarrow>
          if \<not> truthy v then Inr []
          else (case v of PDict d \<Rightarrow> Inr d | _ \<Rightarrow> Inl TypeError))"

text \<open>\<^verbatim>\<open>if c: _filter[path] = query_filter(c)\<close>, with \<^verbatim>\<open>query_filter\<close> of
  \<^verbatim>\<open>SoftLayer.utils\<close> a parameter \<open>qf\<close>: the encoding is the remote service's.\<close>

definition add_criterion ::
  "(pyval \<Rightarrow> pyval) \<Rightarrow> pyval \<Rightarrow> string list \<Rightarrow> (string \<times> pyval) list
     \<Rightarrow> error + (string \<times> pyval) list" where
  "add_criterion qf c path d = (if truthy c then nd_set path (qf c) d else Inr d)"

section \<open>list_vlans and list_subnets\<close>

text \<open>
  Lines 232 to 241, \<^verbatim>\<open>_get_vlans\<close>: a \<^verbatim>\<open>mask\<close> among the keyword arguments meets the
  explicit \<^verbatim>\<open>mask=\<close> of the call, which Python refuses with TypeError.
\<close>

definition getNetworkVlans_call :: "(string \<times> pyval) list \<Rightarrow> call" where
  "getNetworkVlans_call kwargs =
     Call ''Account'' ''getNetworkVlans'' [] ((''mask'', PStr get_vlan_mask) # kwargs)"

definition get_vlans :: "remote \<Rightarrow> call list \<Rightarrow> (string \<times> pyval) list \<Rightarrow> call list \<times> (error + pyval)" where
  "get_vlans rem tr0 kwargs =
     (if map_of kwargs ''mask'' \<noteq> None then (tr0, Inl TypeError)
      else invoke rem (getNetworkVlans_call kwargs) tr0)"

text \<open>Lines 140 to 147: the filter of \<^verbatim>\<open>list_vlans\<close>.\<close>

definition vlan_number_path :: "string list" where
  "vlan_number_path = [''networkVlans'', ''vlanNumber'']"

definition vlan_datacenter_path :: "string list" where
  "vlan_datacenter_path = [''networkVlans'', ''primaryRouter'', ''datacenter'', ''name'']"

definition list_vlans_filter ::
  "(pyval \<Rightarrow> pyval) \<Rightarrow> pyval \<Rightarrow> pyval \<Rightarrow> (string \<times> pyval) list
     \<Rightarrow> error + (string \<times> pyval) list" where
  "list_vlans_filter qf datacenter vlan_number kwargs =
     (case caller_filter kwargs of
        Inl e \<Rightarrow> Inl e
      | Inr f0 \<Rightarrow>
     (case add_criterion qf vlan_number vlan_number_path f0 of
        Inl e \<Rightarrow> Inl e
      | Inr f1 \<Rightarrow> add_criterion qf datacenter vlan_datacenter_path f1))"

text \<open>Lines 127 to 151.\<close>

definition list_vlans ::
  "(pyval \<Rightarrow> pyval) \<Rightarrow> remote \<Rightarrow> call list \<Rightarrow> pyval \<Rightarrow> pyval \<Rightarrow> (string \<times> pyval) list
     \<Rightarrow> call list \<times> (error + pyval)" where
  "list_vlans qf rem tr0 datacenter vlan_number kwargs =
     (case list_vlans_filter qf datacenter vlan_number kwargs of
        Inl e \<Rightarrow> (tr0, Inl e)
      | Inr f \<Rightarrow> get_vlans rem tr0 (AList.update ''filter'' (PDict f) kwargs))"

text \<open>Lines 169 to 177: the filter of \<^verbatim>\<open>list_subnets\<close>.\<close>

definition subnet_identifier_path :: "string list" where
  "subnet_identifier_path = [''subnets'', ''networkIdentifier'']"

definition subnet_datacenter_path :: "string list" where
  "subnet_datacenter_path = [''subnets'', ''datacenter'', ''name'']"

definition subnet_version_path :: "string list" where
  "subnet_version_path = [''subnets'', ''version'']"

definition list_subnets_filter ::
  "(pyval \<Rightarrow> pyval) \<Rightarrow> pyval \<Rightarrow> pyval \<Rightarrow> pyval \<Rightarrow> (string \<times> pyval) list
     \<Rightarrow> error + (string \<times> pyval) list" where
  "list_subnets_filter qf identifier datacenter version kwargs =
     (case caller_filter kwargs of
        Inl e \<Rightarrow> Inl e
      | Inr f0 \<Rightarrow>
     (case add_criterion qf identifier subnet_identifier_path f0 of
        Inl e \<Rightarrow> Inl e
      | Inr f1 \<Rightarrow>
     (case add_criterion qf datacenter subnet_datacenter_path f1 of
        Inl e \<Rightarrow> Inl e
      | Inr f2 \<Rightarrow> add_criterion qf version subnet_version_path f2)))"

text \<open>Lines 153 to 182. The default mask is set first, then the filter.\<close>

definition getSubnets_call :: "(string \<times> pyval) list \<Rightarrow> call" where
  "getSubnets_call kwargs = Call ''Account'' ''getSubnets'' [] kwargs"

definition list_subnets ::
  "(pyval \<Rightarrow> pyval) \<Rightarrow> remote \<Rightarrow> call list \<Rightarrow> pyval \<Rightarrow> pyval \<Rightarrow> pyval \<Rightarrow> (string \<times> pyval) list
     \<Rightarrow> call list \<times> (error + pyval)" where
  "list_subnets qf rem tr0 identifier datacenter version kwargs0 =
     (let kwargs = default_mask kwargs0 in
      case list_subnets_filter qf identifier datacenter version kwargs of
        Inl e \<Rightarrow> (tr0, Inl e)
      | Inr f \<Rightarrow> invoke rem (getSubnets_call (AList.update ''filter'' (PDict f) kwargs)) tr0)"

section \<open>get_subnet and cancel_subnet\<close>

text \<open>A list comprehension whose element expression can raise.\<close>

fun map_err :: "('a \<Rightarrow> error + 'b) \<Rightarrow> 'a list \<Rightarrow> error + 'b list" where
  "map_err f [] = Inr []"
| "map_err f (x # xs) =
     (case f x of
        Inl e \<Rightarrow> Inl e
      | Inr y \<Rightarrow> (case map_err f xs of Inl e \<Rightarrow> Inl e | Inr ys \<Rightarrow> Inr (y # ys)))"

text \<open>
  Lines 223 to 230, \<^verbatim>\<open>_get_subnet_by_identifier\<close>: the listing with
  \<^verbatim>\<open>identifier=identifier, mask='id'\<close> and the defaults \<^verbatim>\<open>datacenter=None\<close>,
  \<^verbatim>\<open>version=0\<close>, then the \<^verbatim>\<open>id\<close> of every result.
\<close>

definition get_subnet_by_identifier ::
  "(pyval \<Rightarrow> pyval) \<Rightarrow> remote \<Rightarrow> pyval \<Rightarrow> call list \<Rightarrow> call list \<times> (error + pyval list)" where
  "get_subnet_by_identifier qf rem identifier tr0 =
     (case list_subnets qf rem tr0 identifier PNone (PInt 0) [(''mask'', PStr ''id'')] of
        (tr, Inl e) \<Rightarrow> (tr, Inl e)
      | (tr, Inr results) \<Rightarrow>
          (case py_iter results of
             Inl e \<Rightarrow> (tr, Inl e)
           | Inr rs \<Rightarrow> (tr, map_err (\<lambda>result. getitem result ''id'') rs)))"

text \<open>
  The remote call that this lookup makes, through \<^verbatim>\<open>list_subnets\<close>: the listing of
  the account's subnets with the mask \<^verbatim>\<open>id\<close>, filtered by the network identifier
  (line 171 adds the criterion only for a truthy identifier).
\<close>

definition subnet_lookup_call :: "(pyval \<Rightarrow> pyval) \<Rightarrow> pyval \<Rightarrow> call" where
  "subnet_lookup_call qf identifier =
     getSubnets_call
       [(''mask'', PStr ''id''),
        (''filter'',
         PDict (if truthy identifier
                then [(''subnets'', PDict [(''networkIdentifier'', qf identifier)])]
                else []))]"

text \<open>
  Modelled from the spec: the function \<^verbatim>\<open>resolve_ids\<close> of \<^verbatim>\<open>SoftLayer.utils\<close> is not
  among the sources. The spec says that an identifier is either a numeric id or an
  identifier string, and that it is resolved to a numeric id through the registered
  resolver when it is not numeric already. The test for "numeric" is the parameter
  \<open>as_int\<close>. A numeric identifier is its own resolution and no resolver runs; otherwise
  the resolvers run in the order of their registration until one returns identifiers.
\<close>

fun run_resolvers ::
  "(pyval \<Rightarrow> call list \<Rightarrow> call list \<times> (error + pyval list)) list \<Rightarrow> pyval \<Rightarrow> call list
     \<Rightarrow> call list \<times> (error + pyval list)" where
  "run_resolvers [] identifier tr0 = (tr0, Inr [])"
| "run_resolvers (resolver # resolvers) identifier tr0 =
     (case resolver identifier tr0 of
        (tr, Inl e) \<Rightarrow> (tr, Inl e)
      | (tr, Inr ids) \<Rightarrow> if ids \<noteq> [] then (tr, Inr ids) else run_resolvers resolvers identifier tr)"

text \<open>
  Modelled from the spec: \<^verbatim>\<open>resolve_ids\<close> itself, as described above; the result is a
  list of identifiers, of which line 124 takes the first.
\<close>

definition resolve_ids ::
  "(pyval \<Rightarrow> int option) \<Rightarrow> pyval
     \<Rightarrow> (pyval \<Rightarrow> call list \<Rightarrow> call list \<times> (error + pyval list)) list \<Rightarrow> call list
     \<Rightarrow> call list \<times> (error + pyval list)" where
  "resolve_ids as_int identifier resolvers tr0 =
     (case as_int identifier of
        Some n \<Rightarrow> (tr0, Inr [PInt n])
      | None \<Rightarrow> run_resolvers resolvers identifier tr0)"

text \<open>
  Lines 114 to 125. \<^verbatim>\<open>self.subnet_resolvers\<close> is the one resolver of line 25; the
  \<^verbatim>\<open>[0]\<close> of line 124 raises IndexError on an empty resolution.
\<close>

definition getObject_call :: "pyval \<Rightarrow> (string \<times> pyval) list \<Rightarrow> call" where
  "getObject_call i kwargs = Call ''Network_Subnet'' ''getObject'' [] ((''id'', i) # kwargs)"

definition get_subnet ::
  "(pyval \<Rightarrow> pyval) \<Rightarrow> (pyval \<Rightarrow> int option) \<Rightarrow> remote \<Rightarrow> call list \<Rightarrow> pyval
     \<Rightarrow> (string \<times> pyval) list \<Rightarrow> call list \<times> (error + pyval)" where
  "get_subnet qf as_int rem tr0 identifier kwargs0 =
     (let kwargs = default_mask kwargs0 in
      case resolve_ids as_int identifier [get_subnet_by_identifier qf rem] tr0 of
        (tr, Inl e) \<Rightarrow> (tr, Inl e)
      | (tr, Inr ids) \<Rightarrow>
          (case getitem0 (PList ids) of
             Inl e \<Rightarrow> (tr, Inl e)
           | Inr i \<Rightarrow> invoke rem (getObject_call i kwargs) tr))"

text \<open>Lines 78 to 87.\<close>

definition cancelService_call :: "pyval \<Rightarrow> call" where
  "cancelService_call billing_id = Call ''Billing_Item'' ''cancelService'' [] [(''id'', billing_id)]"

definition cancel_subnet ::
  "(pyval \<Rightarrow> pyval) \<Rightarrow> (pyval \<Rightarrow> int option) \<Rightarrow> remote \<Rightarrow> call list \<Rightarrow> pyval
     \<Rightarrow> call list \<times> (error + pyval)" where
  "cancel_subnet qf as_int rem tr0 identifier =
     (case get_subnet qf as_int rem tr0 identifier [(''mask'', PStr ''mask[id, billingItem.id]'')] of
        (tr, Inl e) \<Rightarrow> (tr, Inl e)
      | (tr, Inr subnet) \<Rightarrow>
     (case getitem subnet ''billingItem'' of
        Inl e \<Rightarrow> (tr, Inl e)
      | Inr billing_item \<Rightarrow>
     (case getitem billing_item ''id'' of
        Inl e \<Rightarrow> (tr, Inl e)
      | Inr billing_id \<Rightarrow> invoke rem (cancelService_call billing_id) tr)))"

section \<open>summary_by_datacenter\<close>










section \<open>Fixtures\<close>


definition operation_filter :: "pyval \<Rightarrow> pyval" where
  "operation_filter q = PDict [(''operation'', q)]"

fun int_only :: "pyval \<Rightarrow> int option" where
  "int_only (PInt n) = Some n"
| "int_only _ = None"

definition fixed_remote :: "pyval \<Rightarrow> remote" where
  "fixed_remote v tr c = Inr v"

definition subnet_remote :: "pyval \<Rightarrow> pyval \<Rightarrow> remote" where
  "subnet_remote listing subnet tr c =
     (case c of
        Call service method args kwargs \<Rightarrow>
          if method = ''getSubnets'' then Inr listing
          else if method = ''getObject'' then Inr subnet
          else Inr (PBool True))"

section \<open>Properties of add_subnet\<close>

subsection \<open>The loop over the catalog\<close>

lemma price_loop_append:
  "price_loop c q v d p (xs @ ys) =
     (case price_loop c q v d p xs of Inl e \<Rightarrow> Inl e | Inr p' \<Rightarrow> price_loop c q v d p' ys)"
  by (induction xs arbitrary: p) (auto split: sum.splits bool.splits)

lemma price_loop_no_match:
  "\<forall>x\<in>set xs. item_matches c q v d x = Inr False \<Longrightarrow> price_loop c q v d p xs = Inr p"
  by (induction xs arbitrary: p) auto

lemma price_loop_total:
  "\<forall>x\<in>set xs. item_matches c q v d x = Inr False \<or>
      (item_matches c q v d x = Inr True \<and> (\<exists>p. item_price x = Inr p))
   \<Longrightarrow> \<exists>p'. price_loop c q v d p xs = Inr p'"
proof (induction xs arbitrary: p)
  case Nil
  show ?case by simp
next
  case (Cons x xs)
  then show ?case by (auto split: sum.splits bool.splits)
qed

lemma price_loop_last:
  assumes pre: "\<forall>x\<in>set pre. item_matches c q v d x = Inr False \<or>
      (item_matches c q v d x = Inr True \<and> (\<exists>p. item_price x = Inr p))"
    and it: "item_matches c q v d item = Inr True" "item_price item = Inr p"
    and post: "\<forall>x\<in>set post. item_matches c q v d x = Inr False"
  shows "price_loop c q v d p0 (pre @ item # post) = Inr p"
proof -
  obtain p' where "price_loop c q v d p0 pre = Inr p'"
    using price_loop_total [OF pre] by blast
  then show ?thesis
    using it price_loop_no_match [OF post] by (simp add: price_loop_append)
qed

lemma find_price_id_list:
  assumes "rem tr0 getItems_call = Inr (PList items)"
    and "add_subnet_params ty quantity version = (c, q1, d)"
  shows "find_price_id rem tr0 ty quantity version =
           (tr0 @ [getItems_call], price_loop c (py_str q1) version d PNone items)"
  using assms by (simp add: find_price_id_def invoke_def)

lemma find_price_id_trace:
  "fst (find_price_id rem tr0 ty quantity version) = tr0 @ [getItems_call]"
  by (simp add: find_price_id_def invoke_def split: prod.splits sum.splits)

lemma str_int_8: "str_int 8 = ''8''"
  by (simp add: str_int_def nat_digits.simps digit_char_def)

lemma str_int_64: "str_int 64 = ''64''"
  by (simp add: str_int_def nat_digits.simps digit_char_def)

lemmas add_subnet_eval = add_subnet_def find_price_id_def invoke_def catalog_remote_def
  add_subnet_params_def item_matches_def category_and_capacity_def version_and_description_def
  item_price_def mk_item_def

subsection \<open>Which item gives the price\<close>

text \<open>
  Claim C1, as stated: among several matching items, the price identifier of the first
  one is selected. The loop has no \<^verbatim>\<open>break\<close>, so that fails: with two matching items
  whose first prices are 1 and 2, the first matching item is the one with price 1 and the
  selected identifier is 2.
\<close>

theorem add_subnet_first_match_counterexample:
  "item_matches ''sov_sec_ip_addresses_pub'' ''8'' 4 None
      (mk_item ''sov_sec_ip_addresses_pub'' ''8'' ''8 Public IP Addresses'' 1) = Inr True
   \<and> item_price (mk_item ''sov_sec_ip_addresses_pub'' ''8'' ''8 Public IP Addresses'' 1)
       = Inr (PInt 1)
   \<and> find_price_id
        (catalog_remote
           [mk_item ''sov_sec_ip_addresses_pub'' ''8'' ''8 Public IP Addresses'' 1,
            mk_item ''sov_sec_ip_addresses_pub'' ''8'' ''8 Portable Public IP Addresses'' 2])
        [] ''public'' (Some 8) 4
      = ([getItems_call], Inr (PInt 2))"
  by (simp add: add_subnet_eval str_int_8)

text \<open>
  Claim C1, amended: the selected price identifier is that of the LAST matching item of
  the catalog response, and it is the \<^verbatim>\<open>id\<close> of the first element of that item's
  \<^verbatim>\<open>prices\<close> list. The catalog is \<open>pre @ item # post\<close>: the items before the last
  matching one are tested without an exception (each does not match, or matches and has a
  first price), and no item after it matches.
\<close>

theorem add_subnet_selects_last_match:
  assumes resp: "rem tr0 getItems_call = Inr (PList (pre @ item # post))"
    and par: "add_subnet_params ty quantity version = (c, q1, d)"
    and pre: "\<forall>x\<in>set pre. item_matches c (py_str q1) version d x = Inr False \<or>
      (item_matches c (py_str q1) version d x = Inr True \<and> (\<exists>p. item_price x = Inr p))"
    and it: "item_matches c (py_str q1) version d item = Inr True"
    and pr: "getitem item ''prices'' = Inr prices" "getitem0 prices = Inr price"
      "getitem price ''id'' = Inr p"
    and post: "\<forall>x\<in>set post. item_matches c (py_str q1) version d x = Inr False"
  shows "find_price_id rem tr0 ty quantity version = (tr0 @ [getItems_call], Inr p)"
proof -
  have "item_price item = Inr p"
    using pr by (simp add: item_price_def)
  then have "price_loop c (py_str q1) version d PNone (pre @ item # post) = Inr p"
    by (rule price_loop_last [OF pre it _ post])
  then show ?thesis
    using find_price_id_list [of rem tr0, OF resp par] by simp
qed

theorem add_subnet_selects_last_match_witness:
  "find_price_id
     (catalog_remote
        [mk_item ''sov_sec_ip_addresses_pub'' ''8'' ''8 Public IP Addresses'' 1,
         mk_item ''sov_sec_ip_addresses_pub'' ''8'' ''8 Portable Public IP Addresses'' 2,
         mk_item ''global_ipv4'' ''0'' ''Global IPv4'' 3])
     [] ''public'' (Some 8) 4
   = ([] @ [getItems_call], Inr (PInt 2))"
proof (rule add_subnet_selects_last_match
    [where pre = "[mk_item ''sov_sec_ip_addresses_pub'' ''8'' ''8 Public IP Addresses'' 1]"
      and item = "mk_item ''sov_sec_ip_addresses_pub'' ''8'' ''8 Portable Public IP Addresses'' 2"
      and post = "[mk_item ''global_ipv4'' ''0'' ''Global IPv4'' 3]"
      and c = "''sov_sec_ip_addresses_pub''" and ?q1.0 = "Some 8" and d = None
      and prices = "PList [PDict [(''id'', PInt 2)]]" and price = "PDict [(''id'', PInt 2)]"])
  show "catalog_remote
          [mk_item ''sov_sec_ip_addresses_pub'' ''8'' ''8 Public IP Addresses'' 1,
           mk_item ''sov_sec_ip_addresses_pub'' ''8'' ''8 Portable Public IP Addresses'' 2,
           mk_item ''global_ipv4'' ''0'' ''Global IPv4'' 3] [] getItems_call =
     Inr (PList ([mk_item ''sov_sec_ip_addresses_pub'' ''8'' ''8 Public IP Addresses'' 1] @
        mk_item ''sov_sec_ip_addresses_pub'' ''8'' ''8 Portable Public IP Addresses'' 2 #
        [mk_item ''global_ipv4'' ''0'' ''Global IPv4'' 3]))"
    by (simp add: catalog_remote_def)
qed (simp_all add: add_subnet_params_def item_matches_def category_and_capacity_def
      version_and_description_def item_price_def mk_item_def str_int_8)

subsection \<open>The table of categories\<close>

text \<open>
  The category code, the quantity and the binding of \<^verbatim>\<open>desc\<close> for each row of the
  table. In the last row \<^verbatim>\<open>desc\<close> is unbound.
\<close>

lemma add_subnet_params_table:
  "add_subnet_params ''global'' q 4 = (''global_ipv4'', Some 0, None)"
  "add_subnet_params ''public'' q 4 = (''sov_sec_ip_addresses_pub'', q, None)"
  "ty \<noteq> ''global'' \<Longrightarrow> ty \<noteq> ''public'' \<Longrightarrow>
     add_subnet_params ty q 4 = (''sov_sec_ip_addresses_priv'', q, None)"
  "v \<noteq> 4 \<Longrightarrow> add_subnet_params ''global'' q v = (''global_ipv6'', Some 0, Some ''Global'')"
  "v \<noteq> 4 \<Longrightarrow> add_subnet_params ''public'' q v = (''static_ipv6_addresses'', q, Some ''Portable'')"
  "v \<noteq> 4 \<Longrightarrow> ty \<noteq> ''global'' \<Longrightarrow> ty \<noteq> ''public'' \<Longrightarrow>
     add_subnet_params ty q v = (''static_ipv6_addresses'', q, None)"
  by (simp_all add: add_subnet_params_def)

text \<open>
  Claim C2 says of the last row (a version other than 4 and a type that is neither
  \<^verbatim>\<open>global\<close> nor \<^verbatim>\<open>public\<close>) that the category is \<^verbatim>\<open>static_ipv6_addresses\<close> and that
  no description match is required. The code does not select the item there: for
  version 6, type \<^verbatim>\<open>private\<close> and a catalog whose one item has that category and the
  capacity \<^verbatim>\<open>'64'\<close>, the call raises UnboundLocalError after the catalog query.
\<close>

theorem add_subnet_ipv6_private_raises:
  "add_subnet
     (catalog_remote
        [mk_item ''static_ipv6_addresses'' ''64'' ''/64 Block Static IPv6 Addresses'' 1])
     [] ''private'' (Some 64) (PInt 5) 6 False
   = ([getItems_call], Inl UnboundLocalError)"
  by (simp add: add_subnet_eval str_int_64)

text \<open>
  Claim C3: with version 6 and a type that is neither \<^verbatim>\<open>global\<close> nor \<^verbatim>\<open>public\<close>, the
  test of the description reads a variable that was never assigned. Whenever some catalog
  item has the category \<^verbatim>\<open>static_ipv6_addresses\<close> and a capacity equal to the
  stringified quantity (the first such item is \<open>item\<close>, the items \<open>pre\<close> before it
  fail that test), the test of the version and the description raises UnboundLocalError
  on it, and so does \<^verbatim>\<open>add_subnet\<close>, with the catalog query as its only remote call.
\<close>

theorem add_subnet_ipv6_other_unbound_desc:
  assumes ty: "ty \<noteq> ''global''" "ty \<noteq> ''public''"
    and resp: "rem tr0 getItems_call = Inr (PList (pre @ item # post))"
    and pre: "\<forall>x\<in>set pre.
        category_and_capacity ''static_ipv6_addresses'' (py_str quantity) x = Inr False"
    and it: "category_and_capacity ''static_ipv6_addresses'' (py_str quantity) item = Inr True"
  shows "version_and_description 6 (snd (snd (add_subnet_params ty quantity 6))) item
           = Inl UnboundLocalError
       \<and> add_subnet rem tr0 ty quantity vlan_id 6 test_order
           = (tr0 @ [getItems_call], Inl UnboundLocalError)"
proof -
  have par: "add_subnet_params ty quantity 6 = (''static_ipv6_addresses'', quantity, None)"
    using ty by (simp add: add_subnet_params_def)
  have v: "version_and_description 6 None item = Inl UnboundLocalError"
    by (simp add: version_and_description_def)
  have "\<forall>x\<in>set pre. item_matches ''static_ipv6_addresses'' (py_str quantity) 6 None x = Inr False"
    using pre by (simp add: item_matches_def)
  then have "price_loop ''static_ipv6_addresses'' (py_str quantity) 6 None PNone pre = Inr PNone"
    by (rule price_loop_no_match)
  moreover have "item_matches ''static_ipv6_addresses'' (py_str quantity) 6 None item
      = Inl UnboundLocalError"
    using it v by (simp add: item_matches_def)
  ultimately have "price_loop ''static_ipv6_addresses'' (py_str quantity) 6 None PNone
      (pre @ item # post) = Inl UnboundLocalError"
    by (simp add: price_loop_append)
  then have "find_price_id rem tr0 ty quantity 6 = (tr0 @ [getItems_call], Inl UnboundLocalError)"
    using find_price_id_list [of rem tr0, OF resp par] by simp
  then show ?thesis
    using par v by (simp add: add_subnet_def)
qed

theorem add_subnet_ipv6_other_unbound_desc_witness:
  "add_subnet
     (catalog_remote
        [mk_item ''global_ipv6'' ''0'' ''Global IPv6'' 7,
         mk_item ''static_ipv6_addresses'' ''64'' ''/64 Block Static IPv6 Addresses'' 1])
     [] ''private'' (Some 64) (PInt 5) 6 True
   = ([getItems_call], Inl UnboundLocalError)"
  using add_subnet_ipv6_other_unbound_desc
    [of "''private''"
      "catalog_remote
        [mk_item ''global_ipv6'' ''0'' ''Global IPv6'' 7,
         mk_item ''static_ipv6_addresses'' ''64'' ''/64 Block Static IPv6 Addresses'' 1]"
      "[]" "[mk_item ''global_ipv6'' ''0'' ''Global IPv6'' 7]"
      "mk_item ''static_ipv6_addresses'' ''64'' ''/64 Block Static IPv6 Addresses'' 1" "[]"
      "Some 64" "PInt 5" True]
  by (simp add: catalog_remote_def category_and_capacity_def mk_item_def str_int_64)

subsection \<open>The order\<close>

text \<open>
  Claim C4: when the loop leaves a price identifier that the test of line 64 accepts (a
  matching price was found), the run makes two remote calls: the catalog query, then one
  operation of \<^verbatim>\<open>Product_Order\<close> whose only argument is the order. The operation is
  \<^verbatim>\<open>verifyOrder\<close> when the test-order flag is set and \<^verbatim>\<open>placeOrder\<close> otherwise, and its
  answer is the result. The order has \<^verbatim>\<open>packageId\<close> 0, the one price entry with the
  selected identifier, \<^verbatim>\<open>quantity\<close> 1 and the complex type of a subnet order; it has the
  key \<^verbatim>\<open>endPointVlanId\<close>, bound to the given VLAN id, exactly when the type is not
  \<^verbatim>\<open>global\<close>; it has no other key.
\<close>

theorem add_subnet_order_payload:
  assumes found: "snd (find_price_id rem tr0 ty quantity version) = Inr price_id"
    and price: "truthy price_id"
  shows "\<exists>order.
      add_subnet rem tr0 ty quantity vlan_id version test_order =
        (tr0 @ [Call ''Product_Package'' ''getItems'' []
                  [(''id'', PInt 0), (''mask'', PStr ''mask[itemCategory]'')],
                Call ''Product_Order'' (if test_order then ''verifyOrder'' else ''placeOrder'')
                  [PDict order] []],
         rem (tr0 @ [Call ''Product_Package'' ''getItems'' []
                       [(''id'', PInt 0), (''mask'', PStr ''mask[itemCategory]'')]])
           (Call ''Product_Order'' (if test_order then ''verifyOrder'' else ''placeOrder'')
              [PDict order] []))
      \<and> map_of order ''packageId'' = Some (PInt 0)
      \<and> map_of order ''prices'' = Some (PList [PDict [(''id'', price_id)]])
      \<and> map_of order ''quantity'' = Some (PInt 1)
      \<and> map_of order ''complexType'' =
          Some (PStr ''SoftLayer_Container_Product_Order_Network_Subnet'')
      \<and> (''endPointVlanId'' \<in> fst ` set order \<longleftrightarrow> ty \<noteq> ''global'')
      \<and> (ty \<noteq> ''global'' \<longrightarrow> map_of order ''endPointVlanId'' = Some vlan_id)
      \<and> map fst order =
          [''packageId'', ''prices'', ''quantity'']
          @ (if ty \<noteq> ''global'' then [''endPointVlanId''] else []) @ [''complexType'']"
proof -
  have "find_price_id rem tr0 ty quantity version = (tr0 @ [getItems_call], Inr price_id)"
    using found find_price_id_trace [of rem tr0 ty quantity version]
    by (cases "find_price_id rem tr0 ty quantity version") simp
  then have run: "add_subnet rem tr0 ty quantity vlan_id version test_order =
      invoke rem (order_call (if test_order then ''verifyOrder'' else ''placeOrder'')
        ([(''packageId'', PInt 0), (''prices'', PList [PDict [(''id'', price_id)]]),
          (''quantity'', PInt 1)]
         @ (if ty \<noteq> ''global'' then [(''endPointVlanId'', vlan_id)] else [])
         @ [(''complexType'', PStr ''SoftLayer_Container_Product_Order_Network_Subnet'')]))
        (tr0 @ [getItems_call])"
    using price by (simp add: add_subnet_def Let_def)
  show ?thesis
    by (rule exI [of _ "[(''packageId'', PInt 0), (''prices'', PList [PDict [(''id'', price_id)]]),
          (''quantity'', PInt 1)]
         @ (if ty \<noteq> ''global'' then [(''endPointVlanId'', vlan_id)] else [])
         @ [(''complexType'', PStr ''SoftLayer_Container_Product_Order_Network_Subnet'')]"])
      (simp add: run invoke_def order_call_def getItems_call_def)
qed



theorem add_subnet_order_payload_witness:
  "\<exists>order.
      add_subnet
          (catalog_remote [mk_item ''sov_sec_ip_addresses_pub'' ''8'' ''8 Public IP Addresses'' 1])
          [] ''public'' (Some 8) (PInt 5) 4 True =
        ([Call ''Product_Package'' ''getItems'' []
            [(''id'', PInt 0), (''mask'', PStr ''mask[itemCategory]'')],
          Call ''Product_Order'' ''verifyOrder'' [PDict order] []],
         Inr (PStr ''receipt''))
      \<and> map_of order ''packageId'' = Some (PInt 0)
      \<and> map_of order ''prices'' = Some (PList [PDict [(''id'', PInt 1)]])
      \<and> map_of order ''quantity'' = Some (PInt 1)
      \<and> map_of order ''complexType'' =
          Some (PStr ''SoftLayer_Container_Product_Order_Network_Subnet'')
      \<and> map_of order ''endPointVlanId'' = Some (PInt 5)
      \<and> map fst order =
          [''packageId'', ''prices'', ''quantity'', ''endPointVlanId'', ''complexType'']"
proof -
  let ?cat = "catalog_remote
      [mk_item ''sov_sec_ip_addresses_pub'' ''8'' ''8 Public IP Addresses'' 1]"
  have f: "snd (find_price_id ?cat [] ''public'' (Some 8) 4) = Inr (PInt 1)"
    by (simp add: add_subnet_eval str_int_8)
  have t: "truthy (PInt 1)" by simp
  have c: "?cat [Call ''Product_Package'' ''getItems'' []
            [(''id'', PInt 0), (''mask'', PStr ''mask[itemCategory]'')]]
        (Call ''Product_Order'' ''verifyOrder'' [PDict order] []) = Inr (PStr ''receipt'')"
    for order
    by (simp add: catalog_remote_def getItems_call_def)
  from add_subnet_order_payload [OF f t, of "PInt 5" True] obtain order where
    o: "add_subnet ?cat [] ''public'' (Some 8) (PInt 5) 4 True =
        ([] @ [Call ''Product_Package'' ''getItems'' []
                  [(''id'', PInt 0), (''mask'', PStr ''mask[itemCategory]'')],
                Call ''Product_Order'' (if True then ''verifyOrder'' else ''placeOrder'')
                  [PDict order] []],
         ?cat ([] @ [Call ''Product_Package'' ''getItems'' []
                       [(''id'', PInt 0), (''mask'', PStr ''mask[itemCategory]'')]])
           (Call ''Product_Order'' (if True then ''verifyOrder'' else ''placeOrder'')
              [PDict order] []))"
      "map_of order ''packageId'' = Some (PInt 0)"
      "map_of order ''prices'' = Some (PList [PDict [(''id'', PInt 1)]])"
      "map_of order ''quantity'' = Some (PInt 1)"
      "map_of order ''complexType'' =
          Some (PStr ''SoftLayer_Container_Product_Order_Network_Subnet'')"
      "''public'' \<noteq> ''global'' \<longrightarrow> map_of order ''endPointVlanId'' = Some (PInt 5)"
      "map fst order =
          [''packageId'', ''prices'', ''quantity'']
          @ (if ''public'' \<noteq> ''global'' then [''endPointVlanId''] else []) @ [''complexType'']"
    by blast
  show ?thesis
    by (rule exI [of _ order]) (use o c in simp)
qed

subsection \<open>No matching price\<close>

text \<open>
  Claim C5: when the catalog response holds no matching item (the test of lines 50 to 52
  is false on every item), \<^verbatim>\<open>add_subnet\<close> returns \<^verbatim>\<open>None\<close> and raises nothing.
\<close>

theorem add_subnet_no_match_returns_None:
  assumes resp: "rem tr0 getItems_call = Inr (PList items)"
    and par: "add_subnet_params ty quantity version = (category, q1, desc)"
    and none: "\<forall>x\<in>set items. item_matches category (py_str q1) version desc x = Inr False"
  shows "add_subnet rem tr0 ty quantity vlan_id version test_order
           = (tr0 @ [getItems_call], Inr PNone)"
proof -
  have "price_loop category (py_str q1) version desc PNone items = Inr PNone"
    using none by (rule price_loop_no_match)
  then have "find_price_id rem tr0 ty quantity version = (tr0 @ [getItems_call], Inr PNone)"
    using find_price_id_list [of rem tr0, OF resp par] by simp
  then show ?thesis
    by (simp add: add_subnet_def)
qed

theorem add_subnet_no_match_returns_None_witness:
  "add_subnet
     (catalog_remote
        [mk_item ''sov_sec_ip_addresses_pub'' ''8'' ''8 Public IP Addresses'' 1,
         mk_item ''static_ipv6_addresses'' ''64'' ''/64 Block Static IPv6 Addresses'' 2])
     [] ''public'' (Some 64) (PInt 5) 6 False
   = ([getItems_call], Inr PNone)"
  using add_subnet_no_match_returns_None
    [of "catalog_remote
        [mk_item ''sov_sec_ip_addresses_pub'' ''8'' ''8 Public IP Addresses'' 1,
         mk_item ''static_ipv6_addresses'' ''64'' ''/64 Block Static IPv6 Addresses'' 2]"
      "[]"
      "[mk_item ''sov_sec_ip_addresses_pub'' ''8'' ''8 Public IP Addresses'' 1,
        mk_item ''static_ipv6_addresses'' ''64'' ''/64 Block Static IPv6 Addresses'' 2]"
      "''public''" "Some 64" 6 "''static_ipv6_addresses''" "Some 64" "Some ''Portable''"
      "PInt 5" False]
  by (simp add: catalog_remote_def add_subnet_params_def item_matches_def
      category_and_capacity_def version_and_description_def mk_item_def str_int_64 sublist_code)

text \<open>
  Claim C6: when no matching price was found (the price identifier after the loop fails
  the test of line 64), \<^verbatim>\<open>add_subnet\<close> returns \<^verbatim>\<open>None\<close>, the catalog query is the only
  remote call of the run, and no call of the run is an operation of \<^verbatim>\<open>Product_Order\<close>.
\<close>

theorem add_subnet_no_price_no_order:
  assumes found: "snd (find_price_id rem tr0 ty quantity version) = Inr price_id"
    and price: "\<not> truthy price_id"
  shows "add_subnet rem tr0 ty quantity vlan_id version test_order
           = (tr0 @ [getItems_call], Inr PNone)
       \<and> (\<forall>func order. order_call func order \<notin>
            set (drop (length tr0)
              (fst (add_subnet rem tr0 ty quantity vlan_id version test_order))))"
proof -
  have "find_price_id rem tr0 ty quantity version = (tr0 @ [getItems_call], Inr price_id)"
    using found find_price_id_trace [of rem tr0 ty quantity version]
    by (cases "find_price_id rem tr0 ty quantity version") simp
  then have "add_subnet rem tr0 ty quantity vlan_id version test_order
           = (tr0 @ [getItems_call], Inr PNone)"
    using price by (simp add: add_subnet_def)
  then show ?thesis
    by (simp add: getItems_call_def order_call_def)
qed

theorem add_subnet_no_price_no_order_witness:
  "add_subnet
     (catalog_remote [mk_item ''sov_sec_ip_addresses_pub'' ''8'' ''8 Public IP Addresses'' 0])
     [] ''public'' (Some 8) (PInt 5) 4 False
   = ([getItems_call], Inr PNone)"
proof -
  have f: "snd (find_price_id
      (catalog_remote [mk_item ''sov_sec_ip_addresses_pub'' ''8'' ''8 Public IP Addresses'' 0])
      [] ''public'' (Some 8) 4) = Inr (PInt 0)"
    by (simp add: add_subnet_eval str_int_8)
  have t: "\<not> truthy (PInt 0)" by simp
  show ?thesis
    using add_subnet_no_price_no_order [OF f t, of "PInt 5" False] by simp
qed

section \<open>Properties of the filters\<close>

subsection \<open>Assignment at a path\<close>

lemma nd_get_empty: "q \<noteq> [] \<Longrightarrow> nd_get q (PDict []) = None"
  by (cases q) simp_all

lemma nd_get_nd_set_same:
  "p \<noteq> [] \<Longrightarrow> nd_set p v d = Inr d' \<Longrightarrow> nd_get p (PDict d') = Some v"
proof (induction p v d arbitrary: d' rule: nd_set.induct)
  case (1 v d)
  then show ?case by simp
next
  case (2 k v d)
  then show ?case by (auto simp: AList.update_conv')
next
  case (3 k k' ks v d)
  then show ?case
    by (auto simp: AList.update_conv' split: option.splits pyval.splits sum.splits)
qed

lemma nd_get_nd_set_other:
  "nd_set p v d = Inr d' \<Longrightarrow> \<not> prefix p q \<Longrightarrow> \<not> prefix q p
     \<Longrightarrow> nd_get q (PDict d') = nd_get q (PDict d)"
proof (induction p v d arbitrary: d' q rule: nd_set.induct)
  case (1 v d)
  then show ?case by simp
next
  case (2 k v d)
  then show ?case by (cases q) (auto simp: AList.update_conv')
next
  case (3 k k' ks v d)
  show ?case
  proof (cases q)
    case Nil
    with 3 show ?thesis by simp
  next
    case (Cons k2 qs)
    show ?thesis
    proof (cases "k2 = k")
      case False
      with 3(3) Cons show ?thesis
        by (auto simp: AList.update_conv' split: option.splits pyval.splits sum.splits)
    next
      case True
      with 3(4,5) Cons have np: "\<not> prefix (k' # ks) qs" "\<not> prefix qs (k' # ks)"
        by simp_all
      then have "qs \<noteq> []" by auto
      show ?thesis
      proof (cases "map_of d k")
        case None
        with 3(3) obtain sub where s: "nd_set (k' # ks) v [] = Inr sub"
          "d' = AList.update k (PDict sub) d"
          by (auto split: sum.splits)
        have "nd_get qs (PDict sub) = nd_get qs (PDict [])"
          using 3(1) [OF None s(1) np] .
        then show ?thesis
          using None s(2) Cons True \<open>qs \<noteq> []\<close> by (simp add: AList.update_conv' nd_get_empty)
      next
        case (Some x)
        with 3(3) obtain sub0 sub where s: "x = PDict sub0" "nd_set (k' # ks) v sub0 = Inr sub"
          "d' = AList.update k (PDict sub) d"
          by (auto split: sum.splits pyval.splits)
        have "nd_get qs (PDict sub) = nd_get qs (PDict sub0)"
          using 3(2) [OF Some s(1) s(2) np] .
        then show ?thesis
          using Some s Cons True by (simp add: AList.update_conv')
      qed
    qed
  qed
qed



lemma add_criterion_same:
  "truthy c \<Longrightarrow> p \<noteq> [] \<Longrightarrow> add_criterion qf c p d = Inr d'
     \<Longrightarrow> nd_get p (PDict d') = Some (qf c)"
  by (simp add: add_criterion_def nd_get_nd_set_same)

lemma add_criterion_other:
  "add_criterion qf c p d = Inr d' \<Longrightarrow> (truthy c \<longrightarrow> apart p q)
     \<Longrightarrow> nd_get q (PDict d') = nd_get q (PDict d)"
  by (auto simp: add_criterion_def apart_def nd_get_nd_set_other split: if_splits)

lemma vlan_paths_apart:
  "apart vlan_datacenter_path vlan_number_path" "apart vlan_number_path vlan_datacenter_path"
  by (simp_all add: apart_def vlan_number_path_def vlan_datacenter_path_def)

lemma subnet_paths_apart:
  "apart subnet_datacenter_path subnet_identifier_path"
  "apart subnet_version_path subnet_identifier_path"
  "apart subnet_version_path subnet_datacenter_path"
  "apart subnet_identifier_path subnet_datacenter_path"
  "apart subnet_identifier_path subnet_version_path"
  "apart subnet_datacenter_path subnet_version_path"
  by (simp_all add: apart_def subnet_identifier_path_def subnet_datacenter_path_def
      subnet_version_path_def)

lemma list_vlans_filter_merge:
  assumes "list_vlans_filter qf datacenter vlan_number kwargs = Inr f"
  shows "\<exists>f0. caller_filter kwargs = Inr f0
      \<and> (truthy vlan_number \<longrightarrow> nd_get vlan_number_path (PDict f) = Some (qf vlan_number))
      \<and> (truthy datacenter \<longrightarrow> nd_get vlan_datacenter_path (PDict f) = Some (qf datacenter))
      \<and> (\<forall>q. (truthy vlan_number \<longrightarrow> apart vlan_number_path q)
             \<and> (truthy datacenter \<longrightarrow> apart vlan_datacenter_path q)
           \<longrightarrow> nd_get q (PDict f) = nd_get q (PDict f0))"
proof -
  from assms obtain f0 f1 where f0: "caller_filter kwargs = Inr f0"
    and f1: "add_criterion qf vlan_number vlan_number_path f0 = Inr f1"
    and f: "add_criterion qf datacenter vlan_datacenter_path f1 = Inr f"
    by (auto simp: list_vlans_filter_def split: sum.splits)
  have a: "nd_get vlan_number_path (PDict f) = Some (qf vlan_number)" if "truthy vlan_number"
  proof -
    have "nd_get vlan_number_path (PDict f1) = Some (qf vlan_number)"
      by (rule add_criterion_same [OF that _ f1]) (simp add: vlan_number_path_def)
    then show ?thesis
      using add_criterion_other [OF f, of vlan_number_path] vlan_paths_apart by simp
  qed
  have b: "nd_get vlan_datacenter_path (PDict f) = Some (qf datacenter)" if "truthy datacenter"
    by (rule add_criterion_same [OF that _ f]) (simp add: vlan_datacenter_path_def)
  have c: "nd_get q (PDict f) = nd_get q (PDict f0)"
    if "truthy vlan_number \<longrightarrow> apart vlan_number_path q"
      and "truthy datacenter \<longrightarrow> apart vlan_datacenter_path q" for q
    using add_criterion_other [OF f that(2)] add_criterion_other [OF f1 that(1)] by simp
  show ?thesis
    using f0 a b c by blast
qed

lemma caller_filter_default_mask: "caller_filter (default_mask kwargs) = caller_filter kwargs"
  by (simp add: caller_filter_def default_mask_def AList.update_conv')

lemma list_subnets_filter_merge:
  assumes "list_subnets_filter qf identifier datacenter version kwargs = Inr f"
  shows "\<exists>f0. caller_filter kwargs = Inr f0
      \<and> (truthy identifier \<longrightarrow> nd_get subnet_identifier_path (PDict f) = Some (qf identifier))
      \<and> (truthy datacenter \<longrightarrow> nd_get subnet_datacenter_path (PDict f) = Some (qf datacenter))
      \<and> (truthy version \<longrightarrow> nd_get subnet_version_path (PDict f) = Some (qf version))
      \<and> (\<forall>q. (truthy identifier \<longrightarrow> apart subnet_identifier_path q)
             \<and> (truthy datacenter \<longrightarrow> apart subnet_datacenter_path q)
             \<and> (truthy version \<longrightarrow> apart subnet_version_path q)
           \<longrightarrow> nd_get q (PDict f) = nd_get q (PDict f0))"
proof -
  from assms obtain f0 f1 f2 where f0: "caller_filter kwargs = Inr f0"
    and f1: "add_criterion qf identifier subnet_identifier_path f0 = Inr f1"
    and f2: "add_criterion qf datacenter subnet_datacenter_path f1 = Inr f2"
    and f: "add_criterion qf version subnet_version_path f2 = Inr f"
    by (auto simp: list_subnets_filter_def split: sum.splits)
  have a: "nd_get subnet_identifier_path (PDict f) = Some (qf identifier)" if "truthy identifier"
  proof -
    have "nd_get subnet_identifier_path (PDict f1) = Some (qf identifier)"
      by (rule add_criterion_same [OF that _ f1]) (simp add: subnet_identifier_path_def)
    then show ?thesis
      using add_criterion_other [OF f, of subnet_identifier_path]
        add_criterion_other [OF f2, of subnet_identifier_path] subnet_paths_apart by simp
  qed
  have b: "nd_get subnet_datacenter_path (PDict f) = Some (qf datacenter)" if "truthy datacenter"
  proof -
    have "nd_get subnet_datacenter_path (PDict f2) = Some (qf datacenter)"
      by (rule add_criterion_same [OF that _ f2]) (simp add: subnet_datacenter_path_def)
    then show ?thesis
      using add_criterion_other [OF f, of subnet_datacenter_path] subnet_paths_apart by simp
  qed
  have c: "nd_get subnet_version_path (PDict f) = Some (qf version)" if "truthy version"
    by (rule add_criterion_same [OF that _ f]) (simp add: subnet_version_path_def)
  have d: "nd_get q (PDict f) = nd_get q (PDict f0)"
    if "truthy identifier \<longrightarrow> apart subnet_identifier_path q"
      and "truthy datacenter \<longrightarrow> apart subnet_datacenter_path q"
      and "truthy version \<longrightarrow> apart subnet_version_path q" for q
    using add_criterion_other [OF f that(3)] add_criterion_other [OF f2 that(2)]
      add_criterion_other [OF f1 that(1)] by simp
  show ?thesis
    using f0 a b c d by blast
qed

text \<open>Without a filter of the caller, the filter is always built.\<close>

lemma list_vlans_filter_total:
  assumes "caller_filter kwargs = Inr []"
  shows "\<exists>f. list_vlans_filter qf datacenter vlan_number kwargs = Inr f"
  using assms
  by (simp add: list_vlans_filter_def add_criterion_def vlan_number_path_def
      vlan_datacenter_path_def)

lemma list_subnets_filter_total:
  assumes "caller_filter kwargs = Inr []"
  shows "\<exists>f. list_subnets_filter qf identifier datacenter version kwargs = Inr f"
  using assms
  by (simp add: list_subnets_filter_def add_criterion_def subnet_identifier_path_def
      subnet_datacenter_path_def subnet_version_path_def AList.update_conv')

lemma caller_filter_value:
  assumes "map_of kwargs ''filter'' = Some (PDict f0)
      \<or> (f0 = [] \<and> (\<forall>v. map_of kwargs ''filter'' = Some v \<longrightarrow> \<not> truthy v))"
  shows "caller_filter kwargs = Inr f0"
  using assms by (auto simp: caller_filter_def split: option.splits)

lemma list_vlans_sent:
  assumes "list_vlans qf rem tr0 datacenter vlan_number kwargs = (tr, r)" and "tr \<noteq> tr0"
  shows "\<exists>f. list_vlans_filter qf datacenter vlan_number kwargs = Inr f
      \<and> tr = tr0 @ [getNetworkVlans_call (AList.update ''filter'' (PDict f) kwargs)]
      \<and> r = rem tr0 (getNetworkVlans_call (AList.update ''filter'' (PDict f) kwargs))"
  using assms
  by (auto simp: list_vlans_def get_vlans_def invoke_def AList.update_conv'
      split: sum.splits if_splits)

lemma list_subnets_sent:
  assumes "list_subnets qf rem tr0 identifier datacenter version kwargs = (tr, r)"
    and "tr \<noteq> tr0"
  shows "\<exists>f. list_subnets_filter qf identifier datacenter version (default_mask kwargs) = Inr f
      \<and> tr = tr0 @ [getSubnets_call (AList.update ''filter'' (PDict f) (default_mask kwargs))]
      \<and> r = rem tr0 (getSubnets_call (AList.update ''filter'' (PDict f) (default_mask kwargs)))"
  using assms
  by (auto simp: list_subnets_def invoke_def Let_def split: sum.splits)

lemma get_vlan_mask_value:
  "get_vlan_mask = ''mask[firewallInterfaces,hardware,networkComponents,primaryRouter[id, fullyQualifiedDomainName, datacenter],subnets,totalPrimaryIpAddressCount,virtualGuests]''"
  by (simp add: get_vlan_mask_def mask_of_def)

lemma default_mask_value:
  "default_mask kwargs =
     (if map_of kwargs ''mask'' = None
      then AList.update ''mask''
             (PStr ''mask[hardware,datacenter,ipAddressCount,virtualGuests]'') kwargs
      else kwargs)"
  by (simp add: default_mask_def get_subnet_mask_def mask_of_def)


subsection \<open>What list_vlans and list_subnets send\<close>

text \<open>
  Claim C9, amended: whenever \<^verbatim>\<open>list_vlans\<close> or \<^verbatim>\<open>list_subnets\<close> makes its remote call
  (\<^verbatim>\<open>Account.getNetworkVlans\<close> or \<^verbatim>\<open>Account.getSubnets\<close>), the \<^verbatim>\<open>filter\<close> keyword of
  that call binds the path of every supplied (truthy) criterion to the encoding of that
  criterion, and it agrees with the filter of the caller at every path that is neither a
  prefix nor an extension of the path of a supplied criterion: no such entry of the caller
  is dropped and no key is added there. In particular a criterion left unsupplied (or
  falsy) adds no key. At the path of a supplied criterion the criterion replaces what the
  caller had. The filter of the caller, \<open>f0\<close> or \<open>g0\<close>, is the dictionary under
  \<^verbatim>\<open>filter\<close> in the keyword arguments, or the empty dictionary when that is absent or
  falsy.
\<close>

theorem list_filters_merge:
  "(list_vlans qf rem tr0 datacenter vlan_number kwargs = (tr, r) \<and> tr \<noteq> tr0
      \<and> (map_of kwargs ''filter'' = Some (PDict f0)
          \<or> (f0 = [] \<and> (\<forall>v. map_of kwargs ''filter'' = Some v \<longrightarrow> \<not> truthy v))) \<longrightarrow>
      (\<exists>f. tr = tr0 @
              [Call ''Account'' ''getNetworkVlans'' []
                 ((''mask'', PStr ''mask[firewallInterfaces,hardware,networkComponents,primaryRouter[id, fullyQualifiedDomainName, datacenter],subnets,totalPrimaryIpAddressCount,virtualGuests]'')
                  # AList.update ''filter'' (PDict f) kwargs)]
        \<and> r = rem tr0
              (Call ''Account'' ''getNetworkVlans'' []
                 ((''mask'', PStr ''mask[firewallInterfaces,hardware,networkComponents,primaryRouter[id, fullyQualifiedDomainName, datacenter],subnets,totalPrimaryIpAddressCount,virtualGuests]'')
                  # AList.update ''filter'' (PDict f) kwargs))
        \<and> (truthy vlan_number \<longrightarrow>
             nd_get [''networkVlans'', ''vlanNumber''] (PDict f) = Some (qf vlan_number))
        \<and> (truthy datacenter \<longrightarrow>
             nd_get [''networkVlans'', ''primaryRouter'', ''datacenter'', ''name''] (PDict f)
               = Some (qf datacenter))
        \<and> (\<forall>q. (truthy vlan_number \<longrightarrow>
                    \<not> prefix [''networkVlans'', ''vlanNumber''] q
                    \<and> \<not> prefix q [''networkVlans'', ''vlanNumber''])
               \<and> (truthy datacenter \<longrightarrow>
                    \<not> prefix [''networkVlans'', ''primaryRouter'', ''datacenter'', ''name''] q
                    \<and> \<not> prefix q [''networkVlans'', ''primaryRouter'', ''datacenter'', ''name''])
             \<longrightarrow> nd_get q (PDict f) = nd_get q (PDict f0))))
   \<and> (list_subnets qf rem' tr0' identifier datacenter' version kwargs' = (tr', r') \<and> tr' \<noteq> tr0'
      \<and> (map_of kwargs' ''filter'' = Some (PDict g0)
          \<or> (g0 = [] \<and> (\<forall>v. map_of kwargs' ''filter'' = Some v \<longrightarrow> \<not> truthy v))) \<longrightarrow>
      (\<exists>g. tr' = tr0' @
              [Call ''Account'' ''getSubnets'' []
                 (AList.update ''filter'' (PDict g)
                    (if map_of kwargs' ''mask'' = None
                     then AList.update ''mask''
                            (PStr ''mask[hardware,datacenter,ipAddressCount,virtualGuests]'') kwargs'
                     else kwargs'))]
        \<and> r' = rem' tr0'
              (Call ''Account'' ''getSubnets'' []
                 (AList.update ''filter'' (PDict g)
                    (if map_of kwargs' ''mask'' = None
                     then AList.update ''mask''
                            (PStr ''mask[hardware,datacenter,ipAddressCount,virtualGuests]'') kwargs'
                     else kwargs')))
        \<and> (truthy identifier \<longrightarrow>
             nd_get [''subnets'', ''networkIdentifier''] (PDict g) = Some (qf identifier))
        \<and> (truthy datacenter' \<longrightarrow>
             nd_get [''subnets'', ''datacenter'', ''name''] (PDict g) = Some (qf datacenter'))
        \<and> (truthy version \<longrightarrow>
             nd_get [''subnets'', ''version''] (PDict g) = Some (qf version))
        \<and> (\<forall>q. (truthy identifier \<longrightarrow>
                    \<not> prefix [''subnets'', ''networkIdentifier''] q
                    \<and> \<not> prefix q [''subnets'', ''networkIdentifier''])
               \<and> (truthy datacenter' \<longrightarrow>
                    \<not> prefix [''subnets'', ''datacenter'', ''name''] q
                    \<and> \<not> prefix q [''subnets'', ''datacenter'', ''name''])
               \<and> (truthy version \<longrightarrow>
                    \<not> prefix [''subnets'', ''version''] q
                    \<and> \<not> prefix q [''subnets'', ''version''])
             \<longrightarrow> nd_get q (PDict g) = nd_get q (PDict g0))))"
proof (intro conjI impI)
  assume a: "list_vlans qf rem tr0 datacenter vlan_number kwargs = (tr, r) \<and> tr \<noteq> tr0
      \<and> (map_of kwargs ''filter'' = Some (PDict f0)
          \<or> (f0 = [] \<and> (\<forall>v. map_of kwargs ''filter'' = Some v \<longrightarrow> \<not> truthy v)))"
  then have c: "caller_filter kwargs = Inr f0"
    by (intro caller_filter_value) simp
  from a list_vlans_sent [of qf rem tr0 datacenter vlan_number kwargs tr r]
  obtain f where f: "list_vlans_filter qf datacenter vlan_number kwargs = Inr f"
    and s: "tr = tr0 @ [getNetworkVlans_call (AList.update ''filter'' (PDict f) kwargs)]"
      "r = rem tr0 (getNetworkVlans_call (AList.update ''filter'' (PDict f) kwargs))"
    by blast
  from list_vlans_filter_merge [OF f] c have m:
    "truthy vlan_number \<longrightarrow> nd_get vlan_number_path (PDict f) = Some (qf vlan_number)"
    "truthy datacenter \<longrightarrow> nd_get vlan_datacenter_path (PDict f) = Some (qf datacenter)"
    "\<forall>q. (truthy vlan_number \<longrightarrow> apart vlan_number_path q)
             \<and> (truthy datacenter \<longrightarrow> apart vlan_datacenter_path q)
           \<longrightarrow> nd_get q (PDict f) = nd_get q (PDict f0)"
    by auto
  show "\<exists>f. tr = tr0 @
              [Call ''Account'' ''getNetworkVlans'' []
                 ((''mask'', PStr ''mask[firewallInterfaces,hardware,networkComponents,primaryRouter[id, fullyQualifiedDomainName, datacenter],subnets,totalPrimaryIpAddressCount,virtualGuests]'')
                  # AList.update ''filter'' (PDict f) kwargs)]
        \<and> r = rem tr0
              (Call ''Account'' ''getNetworkVlans'' []
                 ((''mask'', PStr ''mask[firewallInterfaces,hardware,networkComponents,primaryRouter[id, fullyQualifiedDomainName, datacenter],subnets,totalPrimaryIpAddressCount,virtualGuests]'')
                  # AList.update ''filter'' (PDict f) kwargs))
        \<and> (truthy vlan_number \<longrightarrow>
             nd_get [''networkVlans'', ''vlanNumber''] (PDict f) = Some (qf vlan_number))
        \<and> (truthy datacenter \<longrightarrow>
             nd_get [''networkVlans'', ''primaryRouter'', ''datacenter'', ''name''] (PDict f)
               = Some (qf datacenter))
        \<and> (\<forall>q. (truthy vlan_number \<longrightarrow>
                    \<not> prefix [''networkVlans'', ''vlanNumber''] q
                    \<and> \<not> prefix q [''networkVlans'', ''vlanNumber''])
               \<and> (truthy datacenter \<longrightarrow>
                    \<not> prefix [''networkVlans'', ''primaryRouter'', ''datacenter'', ''name''] q
                    \<and> \<not> prefix q [''networkVlans'', ''primaryRouter'', ''datacenter'', ''name''])
             \<longrightarrow> nd_get q (PDict f) = nd_get q (PDict f0))"
    using s m
    unfolding getNetworkVlans_call_def get_vlan_mask_value apart_def vlan_number_path_def
      vlan_datacenter_path_def
    by (intro exI [of _ f]) blast
next
  assume a: "list_subnets qf rem' tr0' identifier datacenter' version kwargs' = (tr', r')
      \<and> tr' \<noteq> tr0'
      \<and> (map_of kwargs' ''filter'' = Some (PDict g0)
          \<or> (g0 = [] \<and> (\<forall>v. map_of kwargs' ''filter'' = Some v \<longrightarrow> \<not> truthy v)))"
  then have c: "caller_filter (default_mask kwargs') = Inr g0"
    unfolding caller_filter_default_mask by (intro caller_filter_value) simp
  from a list_subnets_sent [of qf "rem'" "tr0'" "identifier" "datacenter'" version "kwargs'" "tr'" "r'"]
  obtain g where g: "list_subnets_filter qf identifier datacenter' version (default_mask kwargs')
      = Inr g"
    and s: "tr' = tr0' @ [getSubnets_call (AList.update ''filter'' (PDict g) (default_mask kwargs'))]"
      "r' = rem' tr0' (getSubnets_call (AList.update ''filter'' (PDict g) (default_mask kwargs')))"
    by blast
  from list_subnets_filter_merge [OF g] c have m:
    "truthy identifier \<longrightarrow> nd_get subnet_identifier_path (PDict g) = Some (qf identifier)"
    "truthy datacenter' \<longrightarrow> nd_get subnet_datacenter_path (PDict g) = Some (qf datacenter')"
    "truthy version \<longrightarrow> nd_get subnet_version_path (PDict g) = Some (qf version)"
    "\<forall>q. (truthy identifier \<longrightarrow> apart subnet_identifier_path q)
             \<and> (truthy datacenter' \<longrightarrow> apart subnet_datacenter_path q)
             \<and> (truthy version \<longrightarrow> apart subnet_version_path q)
           \<longrightarrow> nd_get q (PDict g) = nd_get q (PDict g0)"
    by auto
  show "\<exists>g. tr' = tr0' @
              [Call ''Account'' ''getSubnets'' []
                 (AList.update ''filter'' (PDict g)
                    (if map_of kwargs' ''mask'' = None
                     then AList.update ''mask''
                            (PStr ''mask[hardware,datacenter,ipAddressCount,virtualGuests]'') kwargs'
                     else kwargs'))]
        \<and> r' = rem' tr0'
              (Call ''Account'' ''getSubnets'' []
                 (AList.update ''filter'' (PDict g)
                    (if map_of kwargs' ''mask'' = None
                     then AList.update ''mask''
                            (PStr ''mask[hardware,datacenter,ipAddressCount,virtualGuests]'') kwargs'
                     else kwargs')))
        \<and> (truthy identifier \<longrightarrow>
             nd_get [''subnets'', ''networkIdentifier''] (PDict g) = Some (qf identifier))
        \<and> (truthy datacenter' \<longrightarrow>
             nd_get [''subnets'', ''datacenter'', ''name''] (PDict g) = Some (qf datacenter'))
        \<and> (truthy version \<longrightarrow>
             nd_get [''subnets'', ''version''] (PDict g) = Some (qf version))
        \<and> (\<forall>q. (truthy identifier \<longrightarrow>
                    \<not> prefix [''subnets'', ''networkIdentifier''] q
                    \<and> \<not> prefix q [''subnets'', ''networkIdentifier''])
               \<and> (truthy datacenter' \<longrightarrow>
                    \<not> prefix [''subnets'', ''datacenter'', ''name''] q
                    \<and> \<not> prefix q [''subnets'', ''datacenter'', ''name''])
               \<and> (truthy version \<longrightarrow>
                    \<not> prefix [''subnets'', ''version''] q
                    \<and> \<not> prefix q [''subnets'', ''version''])
             \<longrightarrow> nd_get q (PDict g) = nd_get q (PDict g0))"
    using s m
    unfolding getSubnets_call_def default_mask_value apart_def subnet_identifier_path_def
      subnet_datacenter_path_def subnet_version_path_def
    by (intro exI [of _ g]) blast
qed



lemmas filter_eval = list_vlans_filter_def list_subnets_filter_def caller_filter_def
  add_criterion_def vlan_number_path_def vlan_datacenter_path_def subnet_identifier_path_def
  subnet_datacenter_path_def subnet_version_path_def operation_filter_def default_mask_def

text \<open>
  Claim C9, as stated: the filter sent contains every entry of the caller's filter and
  every entry derived from the criteria. Both cannot hold when the caller's filter already
  has an entry at the path of a supplied criterion: the assignment replaces it. The
  caller's filter binds \<^verbatim>\<open>networkVlans.vlanNumber.operation\<close> to 7, the call passes
  \<^verbatim>\<open>vlan_number=5\<close>, and the filter of the one call made binds that path to 5.
\<close>

theorem list_vlans_filter_overwrite_counterexample:
  "nd_get [''networkVlans'', ''vlanNumber'', ''operation'']
      (PDict [(''networkVlans'', PDict [(''vlanNumber'', PDict [(''operation'', PInt 7)])])])
     = Some (PInt 7)
   \<and> list_vlans operation_filter (fixed_remote (PList [])) [] PNone (PInt 5)
        [(''filter'',
          PDict [(''networkVlans'', PDict [(''vlanNumber'', PDict [(''operation'', PInt 7)])])])]
     = ([Call ''Account'' ''getNetworkVlans'' []
           [(''mask'', PStr ''mask[firewallInterfaces,hardware,networkComponents,primaryRouter[id, fullyQualifiedDomainName, datacenter],subnets,totalPrimaryIpAddressCount,virtualGuests]''),
            (''filter'',
             PDict [(''networkVlans'', PDict [(''vlanNumber'', PDict [(''operation'', PInt 5)])])])]],
        Inr (PList []))
   \<and> nd_get [''networkVlans'', ''vlanNumber'', ''operation'']
      (PDict [(''networkVlans'', PDict [(''vlanNumber'', PDict [(''operation'', PInt 5)])])])
     = Some (PInt 5)"
  by (simp add: list_vlans_def get_vlans_def invoke_def fixed_remote_def filter_eval
      getNetworkVlans_call_def get_vlan_mask_value)

theorem list_filters_merge_witness:
  "list_vlans operation_filter (fixed_remote (PList [])) [] PNone (PInt 5)
      [(''filter'', PDict [(''networkVlans'', PDict [(''id'', PDict [(''operation'', PInt 1)])])])]
     = ([Call ''Account'' ''getNetworkVlans'' []
           [(''mask'', PStr ''mask[firewallInterfaces,hardware,networkComponents,primaryRouter[id, fullyQualifiedDomainName, datacenter],subnets,totalPrimaryIpAddressCount,virtualGuests]''),
            (''filter'',
             PDict [(''networkVlans'',
                     PDict [(''id'', PDict [(''operation'', PInt 1)]),
                            (''vlanNumber'', PDict [(''operation'', PInt 5)])])])]],
        Inr (PList []))
   \<and> list_subnets operation_filter (fixed_remote (PList [])) [] (PStr ''10.0.0.0'') PNone
      (PInt 4)
      [(''filter'', PDict [(''subnets'', PDict [(''id'', PDict [(''operation'', PInt 1)])])])]
     = ([Call ''Account'' ''getSubnets'' []
           [(''filter'',
             PDict [(''subnets'',
                     PDict [(''id'', PDict [(''operation'', PInt 1)]),
                            (''networkIdentifier'', PDict [(''operation'', PStr ''10.0.0.0'')]),
                            (''version'', PDict [(''operation'', PInt 4)])])]),
            (''mask'', PStr ''mask[hardware,datacenter,ipAddressCount,virtualGuests]'')]],
        Inr (PList []))
   \<and> (\<exists>f. list_vlans operation_filter (fixed_remote (PList [])) [] PNone (PInt 5)
          [(''filter'', PDict [(''networkVlans'', PDict [(''id'', PDict [(''operation'', PInt 1)])])])]
        = ([Call ''Account'' ''getNetworkVlans'' []
              ((''mask'', PStr ''mask[firewallInterfaces,hardware,networkComponents,primaryRouter[id, fullyQualifiedDomainName, datacenter],subnets,totalPrimaryIpAddressCount,virtualGuests]'')
               # AList.update ''filter'' (PDict f)
                   [(''filter'',
                     PDict [(''networkVlans'', PDict [(''id'', PDict [(''operation'', PInt 1)])])])])],
           Inr (PList []))
      \<and> nd_get [''networkVlans'', ''vlanNumber''] (PDict f) = Some (operation_filter (PInt 5))
      \<and> (\<forall>q. \<not> prefix [''networkVlans'', ''vlanNumber''] q
               \<and> \<not> prefix q [''networkVlans'', ''vlanNumber'']
             \<longrightarrow> nd_get q (PDict f) =
                 nd_get q
                   (PDict [(''networkVlans'', PDict [(''id'', PDict [(''operation'', PInt 1)])])])))
   \<and> (\<exists>g. list_subnets operation_filter (fixed_remote (PList [])) [] (PStr ''10.0.0.0'') PNone
          (PInt 4)
          [(''filter'', PDict [(''subnets'', PDict [(''id'', PDict [(''operation'', PInt 1)])])])]
        = ([Call ''Account'' ''getSubnets'' []
              (AList.update ''filter'' (PDict g)
                 (AList.update ''mask''
                    (PStr ''mask[hardware,datacenter,ipAddressCount,virtualGuests]'')
                    [(''filter'',
                      PDict [(''subnets'', PDict [(''id'', PDict [(''operation'', PInt 1)])])])]))],
           Inr (PList []))
      \<and> nd_get [''subnets'', ''networkIdentifier''] (PDict g)
          = Some (operation_filter (PStr ''10.0.0.0''))
      \<and> nd_get [''subnets'', ''version''] (PDict g) = Some (operation_filter (PInt 4))
      \<and> (\<forall>q. \<not> prefix [''subnets'', ''networkIdentifier''] q
               \<and> \<not> prefix q [''subnets'', ''networkIdentifier'']
               \<and> \<not> prefix [''subnets'', ''version''] q
               \<and> \<not> prefix q [''subnets'', ''version'']
             \<longrightarrow> nd_get q (PDict g) =
                 nd_get q
                   (PDict [(''subnets'', PDict [(''id'', PDict [(''operation'', PInt 1)])])])))"
proof -
  let ?kv = "[(''filter'',
      PDict [(''networkVlans'', PDict [(''id'', PDict [(''operation'', PInt 1)])])])]"
  let ?fv = "[(''networkVlans'', PDict [(''id'', PDict [(''operation'', PInt 1)])])]"
  let ?ks = "[(''filter'', PDict [(''subnets'', PDict [(''id'', PDict [(''operation'', PInt 1)])])])]"
  let ?fs = "[(''subnets'', PDict [(''id'', PDict [(''operation'', PInt 1)])])]"
  let ?remote = "fixed_remote (PList [])"
  obtain trv where v: "list_vlans operation_filter ?remote [] PNone (PInt 5) ?kv
      = (trv, Inr (PList []))" and nv: "trv \<noteq> []"
    by (simp add: list_vlans_def get_vlans_def invoke_def fixed_remote_def filter_eval)
  obtain trs where s: "list_subnets operation_filter ?remote [] (PStr ''10.0.0.0'') PNone (PInt 4) ?ks
      = (trs, Inr (PList []))" and ns: "trs \<noteq> []"
    by (simp add: list_subnets_def invoke_def fixed_remote_def filter_eval)
  have hv: "map_of ?kv ''filter'' = Some (PDict ?fv)" by simp
  have hs: "map_of ?ks ''filter'' = Some (PDict ?fs)" by simp
  note t = list_filters_merge [where qf = operation_filter and rem = ?remote and ?tr0.0 = "[]"
      and datacenter = PNone and vlan_number = "PInt 5" and kwargs = ?kv and tr = trv
      and r = "Inr (PList [])" and ?f0.0 = ?fv
      and rem' = ?remote and tr0' = "[]" and ?identifier = "PStr ''10.0.0.0''"
      and datacenter' = PNone and version = "PInt 4" and kwargs' = ?ks and tr' = trs
      and r' = "Inr (PList [])" and ?g0.0 = ?fs]
  from t [THEN conjunct1] v nv hv obtain f where
    f: "trv = [] @
              [Call ''Account'' ''getNetworkVlans'' []
                 ((''mask'', PStr ''mask[firewallInterfaces,hardware,networkComponents,primaryRouter[id, fullyQualifiedDomainName, datacenter],subnets,totalPrimaryIpAddressCount,virtualGuests]'')
                  # AList.update ''filter'' (PDict f) ?kv)]"
      "truthy (PInt 5) \<longrightarrow>
         nd_get [''networkVlans'', ''vlanNumber''] (PDict f) = Some (operation_filter (PInt 5))"
      "\<forall>q. (truthy (PInt 5) \<longrightarrow>
                    \<not> prefix [''networkVlans'', ''vlanNumber''] q
                    \<and> \<not> prefix q [''networkVlans'', ''vlanNumber''])
               \<and> (truthy PNone \<longrightarrow>
                    \<not> prefix [''networkVlans'', ''primaryRouter'', ''datacenter'', ''name''] q
                    \<and> \<not> prefix q [''networkVlans'', ''primaryRouter'', ''datacenter'', ''name''])
             \<longrightarrow> nd_get q (PDict f) = nd_get q (PDict ?fv)"
    by blast
  from t [THEN conjunct2] s ns hs obtain g where
    g: "trs = [] @
              [Call ''Account'' ''getSubnets'' []
                 (AList.update ''filter'' (PDict g)
                    (if map_of ?ks ''mask'' = None
                     then AList.update ''mask''
                            (PStr ''mask[hardware,datacenter,ipAddressCount,virtualGuests]'') ?ks
                     else ?ks))]"
      "truthy (PStr ''10.0.0.0'') \<longrightarrow>
         nd_get [''subnets'', ''networkIdentifier''] (PDict g)
           = Some (operation_filter (PStr ''10.0.0.0''))"
      "truthy (PInt 4) \<longrightarrow>
         nd_get [''subnets'', ''version''] (PDict g) = Some (operation_filter (PInt 4))"
      "\<forall>q. (truthy (PStr ''10.0.0.0'') \<longrightarrow>
                    \<not> prefix [''subnets'', ''networkIdentifier''] q
                    \<and> \<not> prefix q [''subnets'', ''networkIdentifier''])
               \<and> (truthy PNone \<longrightarrow>
                    \<not> prefix [''subnets'', ''datacenter'', ''name''] q
                    \<and> \<not> prefix q [''subnets'', ''datacenter'', ''name''])
               \<and> (truthy (PInt 4) \<longrightarrow>
                    \<not> prefix [''subnets'', ''version''] q
                    \<and> \<not> prefix q [''subnets'', ''version''])
             \<longrightarrow> nd_get q (PDict g) = nd_get q (PDict ?fs)"
    by blast
  have a: "\<exists>f. list_vlans operation_filter ?remote [] PNone (PInt 5) ?kv
        = ([Call ''Account'' ''getNetworkVlans'' []
              ((''mask'', PStr ''mask[firewallInterfaces,hardware,networkComponents,primaryRouter[id, fullyQualifiedDomainName, datacenter],subnets,totalPrimaryIpAddressCount,virtualGuests]'')
               # AList.update ''filter'' (PDict f) ?kv)],
           Inr (PList []))
      \<and> nd_get [''networkVlans'', ''vlanNumber''] (PDict f) = Some (operation_filter (PInt 5))
      \<and> (\<forall>q. \<not> prefix [''networkVlans'', ''vlanNumber''] q
               \<and> \<not> prefix q [''networkVlans'', ''vlanNumber'']
             \<longrightarrow> nd_get q (PDict f) = nd_get q (PDict ?fv))"
    by (rule exI [of _ f]) (use v f in simp)
  have b: "\<exists>g. list_subnets operation_filter ?remote [] (PStr ''10.0.0.0'') PNone (PInt 4) ?ks
        = ([Call ''Account'' ''getSubnets'' []
              (AList.update ''filter'' (PDict g)
                 (AList.update ''mask''
                    (PStr ''mask[hardware,datacenter,ipAddressCount,virtualGuests]'') ?ks))],
           Inr (PList []))
      \<and> nd_get [''subnets'', ''networkIdentifier''] (PDict g)
          = Some (operation_filter (PStr ''10.0.0.0''))
      \<and> nd_get [''subnets'', ''version''] (PDict g) = Some (operation_filter (PInt 4))
      \<and> (\<forall>q. \<not> prefix [''subnets'', ''networkIdentifier''] q
               \<and> \<not> prefix q [''subnets'', ''networkIdentifier'']
               \<and> \<not> prefix [''subnets'', ''version''] q
               \<and> \<not> prefix q [''subnets'', ''version'']
             \<longrightarrow> nd_get q (PDict g) = nd_get q (PDict ?fs))"
    by (rule exI [of _ g]) (use s g in simp)
  have c: "list_vlans operation_filter ?remote [] PNone (PInt 5) ?kv
     = ([Call ''Account'' ''getNetworkVlans'' []
           [(''mask'', PStr ''mask[firewallInterfaces,hardware,networkComponents,primaryRouter[id, fullyQualifiedDomainName, datacenter],subnets,totalPrimaryIpAddressCount,virtualGuests]''),
            (''filter'',
             PDict [(''networkVlans'',
                     PDict [(''id'', PDict [(''operation'', PInt 1)]),
                            (''vlanNumber'', PDict [(''operation'', PInt 5)])])])]],
        Inr (PList []))"
    by (simp add: list_vlans_def get_vlans_def invoke_def fixed_remote_def filter_eval
        getNetworkVlans_call_def get_vlan_mask_value)
  have d: "list_subnets operation_filter ?remote [] (PStr ''10.0.0.0'') PNone (PInt 4) ?ks
     = ([Call ''Account'' ''getSubnets'' []
           [(''filter'',
             PDict [(''subnets'',
                     PDict [(''id'', PDict [(''operation'', PInt 1)]),
                            (''networkIdentifier'', PDict [(''operation'', PStr ''10.0.0.0'')]),
                            (''version'', PDict [(''operation'', PInt 4)])])]),
            (''mask'', PStr ''mask[hardware,datacenter,ipAddressCount,virtualGuests]'')]],
        Inr (PList []))"
    by (simp add: list_subnets_def invoke_def fixed_remote_def filter_eval getSubnets_call_def
        get_subnet_mask_def mask_of_def)
  from c d a b show ?thesis by (intro conjI)
qed

section \<open>Properties of summary_by_datacenter\<close>









section \<open>Properties of get_subnet and cancel_subnet\<close>

lemma get_subnet_by_identifier_call:
  "get_subnet_by_identifier qf rem identifier tr0 =
     (tr0 @ [subnet_lookup_call qf identifier],
      case rem tr0 (subnet_lookup_call qf identifier) of
        Inl e \<Rightarrow> Inl e
      | Inr results \<Rightarrow>
          (case py_iter results of
             Inl e \<Rightarrow> Inl e
           | Inr rs \<Rightarrow> map_err (\<lambda>result. getitem result ''id'') rs))"
  by (simp add: get_subnet_by_identifier_def list_subnets_def list_subnets_filter_def
      caller_filter_def add_criterion_def default_mask_def subnet_identifier_path_def
      subnet_lookup_call_def invoke_def split: sum.splits)

lemma get_subnet_Inr:
  assumes "get_subnet qf as_int rem tr0 identifier kwargs = (tr, Inr subnet)"
  shows "\<exists>tr1 i. tr = tr1 @ [getObject_call i (default_mask kwargs)]
      \<and> rem tr1 (getObject_call i (default_mask kwargs)) = Inr subnet"
  using assms
  by (auto simp: get_subnet_def invoke_def Let_def split: prod.splits sum.splits)

text \<open>
  Claim C8: \<^verbatim>\<open>get_subnet\<close> with a numeric identifier makes one remote call,
  \<^verbatim>\<open>Network_Subnet.getObject\<close> with that id (and the mask of the caller or the default
  one), and no lookup. With an identifier that is not numeric, the lookup comes first:
  \<^verbatim>\<open>Account.getSubnets\<close> with the mask \<^verbatim>\<open>id\<close> and the filter on the network identifier
  (the registered resolver); \<^verbatim>\<open>getObject\<close> follows it, with the first id that the
  lookup returned. When the lookup returns nothing, no fetch is issued and the \<^verbatim>\<open>[0]\<close>
  of line 124 raises IndexError. What counts as numeric is the parameter \<open>as_int\<close>.
\<close>

theorem get_subnet_resolution:
  "(as_int identifier = Some n \<longrightarrow>
      get_subnet qf as_int rem tr0 identifier kwargs =
        (tr0 @ [Call ''Network_Subnet'' ''getObject'' []
                  ((''id'', PInt n) #
                   (if map_of kwargs ''mask'' = None
                    then AList.update ''mask''
                           (PStr ''mask[hardware,datacenter,ipAddressCount,virtualGuests]'') kwargs
                    else kwargs))],
         rem tr0
           (Call ''Network_Subnet'' ''getObject'' []
              ((''id'', PInt n) #
               (if map_of kwargs ''mask'' = None
                then AList.update ''mask''
                       (PStr ''mask[hardware,datacenter,ipAddressCount,virtualGuests]'') kwargs
                else kwargs)))))
   \<and> (as_int identifier = None
       \<and> rem tr0
           (Call ''Account'' ''getSubnets'' []
              [(''mask'', PStr ''id''),
               (''filter'',
                PDict (if truthy identifier
                       then [(''subnets'', PDict [(''networkIdentifier'', qf identifier)])]
                       else []))])
           = Inr (PList results)
       \<and> map_err (\<lambda>result. getitem result ''id'') results = Inr (i # ids) \<longrightarrow>
      get_subnet qf as_int rem tr0 identifier kwargs =
        (tr0 @ [Call ''Account'' ''getSubnets'' []
                  [(''mask'', PStr ''id''),
                   (''filter'',
                    PDict (if truthy identifier
                           then [(''subnets'', PDict [(''networkIdentifier'', qf identifier)])]
                           else []))],
                Call ''Network_Subnet'' ''getObject'' []
                  ((''id'', i) #
                   (if map_of kwargs ''mask'' = None
                    then AList.update ''mask''
                           (PStr ''mask[hardware,datacenter,ipAddressCount,virtualGuests]'') kwargs
                    else kwargs))],
         rem (tr0 @ [Call ''Account'' ''getSubnets'' []
                  [(''mask'', PStr ''id''),
                   (''filter'',
                    PDict (if truthy identifier
                           then [(''subnets'', PDict [(''networkIdentifier'', qf identifier)])]
                           else []))]])
           (Call ''Network_Subnet'' ''getObject'' []
              ((''id'', i) #
               (if map_of kwargs ''mask'' = None
                then AList.update ''mask''
                       (PStr ''mask[hardware,datacenter,ipAddressCount,virtualGuests]'') kwargs
                else kwargs)))))
   \<and> (as_int identifier = None
       \<and> rem tr0
           (Call ''Account'' ''getSubnets'' []
              [(''mask'', PStr ''id''),
               (''filter'',
                PDict (if truthy identifier
                       then [(''subnets'', PDict [(''networkIdentifier'', qf identifier)])]
                       else []))])
           = Inr (PList []) \<longrightarrow>
      get_subnet qf as_int rem tr0 identifier kwargs =
        (tr0 @ [Call ''Account'' ''getSubnets'' []
                  [(''mask'', PStr ''id''),
                   (''filter'',
                    PDict (if truthy identifier
                           then [(''subnets'', PDict [(''networkIdentifier'', qf identifier)])]
                           else []))]],
         Inl IndexError))"
proof -
  have l: "subnet_lookup_call qf identifier =
      Call ''Account'' ''getSubnets'' []
        [(''mask'', PStr ''id''),
         (''filter'',
          PDict (if truthy identifier
                 then [(''subnets'', PDict [(''networkIdentifier'', qf identifier)])]
                 else []))]"
    by (simp add: subnet_lookup_call_def getSubnets_call_def)
  have g: "getObject_call j (default_mask kwargs) =
      Call ''Network_Subnet'' ''getObject'' []
        ((''id'', j) #
         (if map_of kwargs ''mask'' = None
          then AList.update ''mask''
                 (PStr ''mask[hardware,datacenter,ipAddressCount,virtualGuests]'') kwargs
          else kwargs))" for j
    by (simp add: getObject_call_def default_mask_def get_subnet_mask_def mask_of_def)
  have "(as_int identifier = Some n \<longrightarrow>
      get_subnet qf as_int rem tr0 identifier kwargs =
        (tr0 @ [getObject_call (PInt n) (default_mask kwargs)],
         rem tr0 (getObject_call (PInt n) (default_mask kwargs))))
   \<and> (as_int identifier = None
       \<and> rem tr0 (subnet_lookup_call qf identifier) = Inr (PList results)
       \<and> map_err (\<lambda>result. getitem result ''id'') results = Inr (i # ids) \<longrightarrow>
      get_subnet qf as_int rem tr0 identifier kwargs =
        (tr0 @ [subnet_lookup_call qf identifier, getObject_call i (default_mask kwargs)],
         rem (tr0 @ [subnet_lookup_call qf identifier]) (getObject_call i (default_mask kwargs))))
   \<and> (as_int identifier = None
       \<and> rem tr0 (subnet_lookup_call qf identifier) = Inr (PList []) \<longrightarrow>
      get_subnet qf as_int rem tr0 identifier kwargs =
        (tr0 @ [subnet_lookup_call qf identifier], Inl IndexError))"
    by (simp add: get_subnet_def resolve_ids_def get_subnet_by_identifier_call invoke_def Let_def)
  then show ?thesis
    unfolding l g .
qed

text \<open>
  Claim C10: \<^verbatim>\<open>cancel_subnet\<close> first fetches the subnet: the last call of the fetch is
  \<^verbatim>\<open>Network_Subnet.getObject\<close> with the mask \<^verbatim>\<open>mask[id, billingItem.id]\<close>; an exception of
  the fetch propagates. When the fetch returns a subnet, the next call is
  \<^verbatim>\<open>Billing_Item.cancelService\<close> with exactly the id found under \<^verbatim>\<open>billingItem\<close> and
  \<^verbatim>\<open>id\<close> of the fetched subnet, and its answer is the result. When the fetched subnet
  has no \<^verbatim>\<open>billingItem\<close>, the KeyError of line 84 is the result and no cancel call is
  made.
\<close>

theorem cancel_subnet_billing_item:
  "(get_subnet qf as_int rem tr0 identifier [(''mask'', PStr ''mask[id, billingItem.id]'')]
      = (tr, Inl e) \<longrightarrow>
      cancel_subnet qf as_int rem tr0 identifier = (tr, Inl e))
   \<and> (get_subnet qf as_int rem tr0 identifier [(''mask'', PStr ''mask[id, billingItem.id]'')]
      = (tr, Inr subnet) \<longrightarrow>
      (\<exists>tr1 i.
          tr = tr1 @ [Call ''Network_Subnet'' ''getObject'' []
                        [(''id'', i), (''mask'', PStr ''mask[id, billingItem.id]'')]]
        \<and> rem tr1 (Call ''Network_Subnet'' ''getObject'' []
                      [(''id'', i), (''mask'', PStr ''mask[id, billingItem.id]'')]) = Inr subnet)
      \<and> (\<forall>billing_item billing_id.
            getitem subnet ''billingItem'' = Inr billing_item
            \<and> getitem billing_item ''id'' = Inr billing_id \<longrightarrow>
            cancel_subnet qf as_int rem tr0 identifier =
              (tr @ [Call ''Billing_Item'' ''cancelService'' [] [(''id'', billing_id)]],
               rem tr (Call ''Billing_Item'' ''cancelService'' [] [(''id'', billing_id)])))
      \<and> (\<forall>fields. subnet = PDict fields \<and> map_of fields ''billingItem'' = None \<longrightarrow>
            cancel_subnet qf as_int rem tr0 identifier = (tr, Inl KeyError)))"
proof (intro conjI impI)
  assume "get_subnet qf as_int rem tr0 identifier [(''mask'', PStr ''mask[id, billingItem.id]'')]
      = (tr, Inl e)"
  then show "cancel_subnet qf as_int rem tr0 identifier = (tr, Inl e)"
    by (simp add: cancel_subnet_def)
next
  assume g: "get_subnet qf as_int rem tr0 identifier [(''mask'', PStr ''mask[id, billingItem.id]'')]
      = (tr, Inr subnet)"
  from get_subnet_Inr [OF g]
  show "\<exists>tr1 i.
          tr = tr1 @ [Call ''Network_Subnet'' ''getObject'' []
                        [(''id'', i), (''mask'', PStr ''mask[id, billingItem.id]'')]]
        \<and> rem tr1 (Call ''Network_Subnet'' ''getObject'' []
                      [(''id'', i), (''mask'', PStr ''mask[id, billingItem.id]'')]) = Inr subnet"
    by (simp add: default_mask_def getObject_call_def)
  from g show "\<forall>billing_item billing_id.
            getitem subnet ''billingItem'' = Inr billing_item
            \<and> getitem billing_item ''id'' = Inr billing_id \<longrightarrow>
            cancel_subnet qf as_int rem tr0 identifier =
              (tr @ [Call ''Billing_Item'' ''cancelService'' [] [(''id'', billing_id)]],
               rem tr (Call ''Billing_Item'' ''cancelService'' [] [(''id'', billing_id)]))"
    by (simp add: cancel_subnet_def invoke_def cancelService_call_def)
  from g show "\<forall>fields. subnet = PDict fields \<and> map_of fields ''billingItem'' = None \<longrightarrow>
            cancel_subnet qf as_int rem tr0 identifier = (tr, Inl KeyError)"
    by (simp add: cancel_subnet_def)
qed



theorem get_subnet_resolution_witness:
  "get_subnet operation_filter int_only
      (subnet_remote (PList [PDict [(''id'', PInt 77)]]) (PDict [(''id'', PInt 77)]))
      [] (PInt 5) [] =
     ([Call ''Network_Subnet'' ''getObject'' []
         [(''id'', PInt 5),
          (''mask'', PStr ''mask[hardware,datacenter,ipAddressCount,virtualGuests]'')]],
      Inr (PDict [(''id'', PInt 77)]))
   \<and> get_subnet operation_filter int_only
      (subnet_remote (PList [PDict [(''id'', PInt 77)]]) (PDict [(''id'', PInt 77)]))
      [] (PStr ''10.0.0.0'') [] =
     ([Call ''Account'' ''getSubnets'' []
         [(''mask'', PStr ''id''),
          (''filter'',
           PDict [(''subnets'',
                   PDict [(''networkIdentifier'', PDict [(''operation'', PStr ''10.0.0.0'')])])])],
       Call ''Network_Subnet'' ''getObject'' []
         [(''id'', PInt 77),
          (''mask'', PStr ''mask[hardware,datacenter,ipAddressCount,virtualGuests]'')]],
      Inr (PDict [(''id'', PInt 77)]))
   \<and> get_subnet operation_filter int_only
      (subnet_remote (PList []) (PDict [(''id'', PInt 77)]))
      [] (PStr ''10.0.0.0'') [] =
     ([Call ''Account'' ''getSubnets'' []
         [(''mask'', PStr ''id''),
          (''filter'',
           PDict [(''subnets'',
                   PDict [(''networkIdentifier'', PDict [(''operation'', PStr ''10.0.0.0'')])])])]],
      Inl IndexError)"
proof -
  let ?found = "subnet_remote (PList [PDict [(''id'', PInt 77)]]) (PDict [(''id'', PInt 77)])"
  let ?none = "subnet_remote (PList []) (PDict [(''id'', PInt 77)])"
  have 1: "int_only (PInt 5) = Some 5" by simp
  have 2: "int_only (PStr ''10.0.0.0'') = None
       \<and> ?found []
           (Call ''Account'' ''getSubnets'' []
              [(''mask'', PStr ''id''),
               (''filter'',
                PDict (if truthy (PStr ''10.0.0.0'')
                       then [(''subnets'',
                              PDict [(''networkIdentifier'', operation_filter (PStr ''10.0.0.0''))])]
                       else []))])
           = Inr (PList [PDict [(''id'', PInt 77)]])
       \<and> map_err (\<lambda>result. getitem result ''id'') [PDict [(''id'', PInt 77)]] = Inr (PInt 77 # [])"
    by (simp add: subnet_remote_def)
  have 3: "int_only (PStr ''10.0.0.0'') = None
       \<and> ?none []
           (Call ''Account'' ''getSubnets'' []
              [(''mask'', PStr ''id''),
               (''filter'',
                PDict (if truthy (PStr ''10.0.0.0'')
                       then [(''subnets'',
                              PDict [(''networkIdentifier'', operation_filter (PStr ''10.0.0.0''))])]
                       else []))])
           = Inr (PList [])"
    by (simp add: subnet_remote_def)
  have a: "?found tr (Call ''Network_Subnet'' ''getObject'' [] kw) = Inr (PDict [(''id'', PInt 77)])"
    for tr kw
    by (simp add: subnet_remote_def)
  from get_subnet_resolution [of int_only "PInt 5" 5 operation_filter ?found "[]" "[]", THEN conjunct1] 1
  have x: "get_subnet operation_filter int_only ?found [] (PInt 5) [] =
     ([Call ''Network_Subnet'' ''getObject'' []
         [(''id'', PInt 5),
          (''mask'', PStr ''mask[hardware,datacenter,ipAddressCount,virtualGuests]'')]],
      Inr (PDict [(''id'', PInt 77)]))"
    by (simp add: a)
  from get_subnet_resolution [of int_only "PStr ''10.0.0.0''" _ operation_filter ?found "[]" "[]"
      "[PDict [(''id'', PInt 77)]]" "PInt 77" "[]", THEN conjunct2, THEN conjunct1] 2
  have y: "get_subnet operation_filter int_only ?found [] (PStr ''10.0.0.0'') [] =
     ([Call ''Account'' ''getSubnets'' []
         [(''mask'', PStr ''id''),
          (''filter'',
           PDict [(''subnets'',
                   PDict [(''networkIdentifier'', PDict [(''operation'', PStr ''10.0.0.0'')])])])],
       Call ''Network_Subnet'' ''getObject'' []
         [(''id'', PInt 77),
          (''mask'', PStr ''mask[hardware,datacenter,ipAddressCount,virtualGuests]'')]],
      Inr (PDict [(''id'', PInt 77)]))"
    by (simp add: a operation_filter_def)
  from get_subnet_resolution [of int_only "PStr ''10.0.0.0''" _ operation_filter ?none "[]" "[]",
      THEN conjunct2, THEN conjunct2] 3
  have z: "get_subnet operation_filter int_only ?none [] (PStr ''10.0.0.0'') [] =
     ([Call ''Account'' ''getSubnets'' []
         [(''mask'', PStr ''id''),
          (''filter'',
           PDict [(''subnets'',
                   PDict [(''networkIdentifier'', PDict [(''operation'', PStr ''10.0.0.0'')])])])]],
      Inl IndexError)"
    by (simp add: operation_filter_def)
  from x y z show ?thesis by blast
qed

theorem cancel_subnet_billing_item_witness:
  "cancel_subnet operation_filter int_only
      (subnet_remote (PList [])
         (PDict [(''id'', PInt 1234), (''billingItem'', PDict [(''id'', PInt 99)])]))
      [] (PInt 1234)
     = ([Call ''Network_Subnet'' ''getObject'' []
           [(''id'', PInt 1234), (''mask'', PStr ''mask[id, billingItem.id]'')],
         Call ''Billing_Item'' ''cancelService'' [] [(''id'', PInt 99)]],
        Inr (PBool True))
   \<and> cancel_subnet operation_filter int_only
      (subnet_remote (PList []) (PDict [(''id'', PInt 1234)])) [] (PInt 1234)
     = ([Call ''Network_Subnet'' ''getObject'' []
           [(''id'', PInt 1234), (''mask'', PStr ''mask[id, billingItem.id]'')]],
        Inl KeyError)"
proof -
  let ?s1 = "PDict [(''id'', PInt 1234), (''billingItem'', PDict [(''id'', PInt 99)])]"
  let ?s2 = "PDict [(''id'', PInt 1234)]"
  let ?tr = "[Call ''Network_Subnet'' ''getObject'' []
           [(''id'', PInt 1234), (''mask'', PStr ''mask[id, billingItem.id]'')]]"
  have g1: "get_subnet operation_filter int_only (subnet_remote (PList []) ?s1) [] (PInt 1234)
      [(''mask'', PStr ''mask[id, billingItem.id]'')] = (?tr, Inr ?s1)"
    by (simp add: get_subnet_def resolve_ids_def invoke_def subnet_remote_def getObject_call_def
        default_mask_def)
  have g2: "get_subnet operation_filter int_only (subnet_remote (PList []) ?s2) [] (PInt 1234)
      [(''mask'', PStr ''mask[id, billingItem.id]'')] = (?tr, Inr ?s2)"
    by (simp add: get_subnet_def resolve_ids_def invoke_def subnet_remote_def getObject_call_def
        default_mask_def)
  have c: "subnet_remote (PList []) ?s1 ?tr
      (Call ''Billing_Item'' ''cancelService'' [] [(''id'', PInt 99)]) = Inr (PBool True)"
    by (simp add: subnet_remote_def)
  from cancel_subnet_billing_item [THEN conjunct2, rule_format, OF g1, THEN conjunct2, THEN conjunct1, rule_format,
      of "PDict [(''id'', PInt 99)]" "PInt 99"] c
  have x: "cancel_subnet operation_filter int_only (subnet_remote (PList []) ?s1) [] (PInt 1234)
     = (?tr @ [Call ''Billing_Item'' ''cancelService'' [] [(''id'', PInt 99)]], Inr (PBool True))"
    by simp
  from cancel_subnet_billing_item [THEN conjunct2, rule_format, OF g2, THEN conjunct2, THEN conjunct2, rule_format,
      of "[(''id'', PInt 1234)]"]
  have y: "cancel_subnet operation_filter int_only (subnet_remote (PList []) ?s2) [] (PInt 1234)
     = (?tr, Inl KeyError)"
    by simp
  from x y show ?thesis by simp
qed

end
